theory Spec2Isabelle
  imports Complex_Main "HOL-Library.Word"
begin

section \<open>Numbers\<close>

text \<open>
  Go's \<^verbatim>\<open>float64\<close> is modelled by the real numbers: arithmetic is exact and every
  value is finite. Rounding, overflow and the IEEE 754 values NaN and infinity are outside
  this model. Where the Go code can divide by zero the text says what IEEE 754 does there
  and how the model treats it. \<^verbatim>\<open>Normalize\<close>, whose result is stated to have a magnitude,
  is modelled a second time over the values of IEEE 754 binary64, with rounding, overflow
  and underflow (\<open>Normalize64\<close> below).
\<close>

type_synonym float64 = real

text \<open>
  Go's \<^verbatim>\<open>x / y\<close> on \<^verbatim>\<open>float64\<close>, for a divisor that may be zero and whose quotient is
  stored. For \<open>y \<noteq> 0\<close> it is the quotient. For \<open>y = 0\<close> IEEE 754 gives NaN (when
  \<open>x = 0\<close>) or an infinity, which is no real number: that value is left to the parameter
  \<open>nonfinite\<close>, of which nothing is assumed.
\<close>

definition float64_div :: "(float64 \<Rightarrow> float64) \<Rightarrow> float64 \<Rightarrow> float64 \<Rightarrow> float64" where
  "float64_div nonfinite x y = (if y = 0 then nonfinite x else x / y)"

section \<open>Linear algebra (pkg/raytracing/linearalgebra.go)\<close>

record Vector =
  X :: float64
  Y :: float64
  Z :: float64

definition Dot :: "Vector \<Rightarrow> Vector \<Rightarrow> float64" where
  "Dot v other = X v * X other + Y v * Y other + Z v * Z other"

definition Cross :: "Vector \<Rightarrow> Vector \<Rightarrow> Vector" where
  "Cross v other =
     \<lparr>X = Y v * Z other - Z v * Y other,
      Y = Z v * X other - X v * Z other,
      Z = X v * Y other - Y v * X other\<rparr>"

definition Magnitude :: "Vector \<Rightarrow> float64" where
  "Magnitude v = sqrt (Dot v v)"

definition Add :: "Vector \<Rightarrow> Vector \<Rightarrow> Vector" where
  "Add v other = \<lparr>X = X v + X other, Y = Y v + Y other, Z = Z v + Z other\<rparr>"

definition Subtract :: "Vector \<Rightarrow> Vector \<Rightarrow> Vector" where
  "Subtract v other = \<lparr>X = X v - X other, Y = Y v - Y other, Z = Z v - Z other\<rparr>"

definition Negative :: "Vector \<Rightarrow> Vector" where
  "Negative v = \<lparr>X = - X v, Y = - Y v, Z = - Z v\<rparr>"

definition Scale :: "Vector \<Rightarrow> float64 \<Rightarrow> Vector" where
  "Scale v scale = \<lparr>X = X v * scale, Y = Y v * scale, Z = Z v * scale\<rparr>"

text \<open>
  \<^verbatim>\<open>Normalize\<close> returns the vector and the success flag. The division \<^verbatim>\<open>1.0 / mag\<close>
  is only reached with \<open>mag > 0\<close>. Over the reals the square of a component neither
  overflows nor underflows and the quotient is exact; Go computes \<^verbatim>\<open>X * X\<close> as \<open>+Inf\<close> for
  \<open>X = 2^600\<close> and as \<open>0\<close> for \<open>X = 2^-600\<close>, and rounds every operation. What this
  function returns in \<^verbatim>\<open>float64\<close> arithmetic is the subject of \<open>Normalize64\<close>.
\<close>

definition Normalize :: "Vector \<Rightarrow> Vector \<times> bool" where
  "Normalize v =
     (let mag = Magnitude v in
      if mag \<le> 0 then (v, False)
      else (Scale v (1 / mag), True))"

text \<open>The structs of \<^verbatim>\<open>pkg/raytracing\<close>: rays, colors, materials and lights.\<close>

record Ray =
  Position :: Vector
  Direction :: Vector

record Color =
  Red :: float64
  Green :: float64
  Blue :: float64

record Material =
  Specular :: Color
  Diffuse :: Color
  Ambient :: Color
  Alpha :: float64
  Reflectance :: float64

record Light =
  Position :: Vector
  Specular :: Color
  Diffuse :: Color
  Ambient :: Color

text \<open>The zero value of \<^verbatim>\<open>Color\<close>, with which a named result or a variable starts.\<close>

definition Color_zero :: Color where
  "Color_zero = \<lparr>Red = 0, Green = 0, Blue = 0\<rparr>"

section \<open>Normalize in binary64 arithmetic (pkg/raytracing/linearalgebra.go)\<close>














section \<open>Lighting (pkg/raytracing/linearalgebra.go)\<close>

text \<open>
  Modelled from the spec: the type \<^verbatim>\<open>raytracing.LightingModel\<close> of the parameter
  \<^verbatim>\<open>lighting\<close> of \<^verbatim>\<open>TraceRay\<close> is not among the sources. It is the signature "compute
  surface color given visible lights, ambient term, viewer direction, hit position, unit
  normal, material", the one of \<^verbatim>\<open>PhongReflectance\<close> and of the call in \<^verbatim>\<open>TraceRay\<close>.
\<close>

type_synonym LightingModel =
  "Light list \<Rightarrow> Color \<Rightarrow> Vector \<Rightarrow> Vector \<Rightarrow> Vector \<Rightarrow> Material \<Rightarrow> Color"

text \<open>
  Go's \<^verbatim>\<open>math.Pow\<close>. For a positive base it is the real power \<open>x powr y\<close>. For the base
  zero \<^verbatim>\<open>math.Pow\<close> returns 0, 1 or an infinity, depending on the exponent, where
  \<open>0 powr y = 0\<close>; \<^verbatim>\<open>PhongReflectance\<close> overwrites the result of that call with zero.
\<close>

definition Pow :: "float64 \<Rightarrow> float64 \<Rightarrow> float64" where
  "Pow x y = x powr y"

text \<open>
  The loop of \<^verbatim>\<open>PhongReflectance\<close> over the lights; every \<^verbatim>\<open>continue\<close> goes on with
  the unchanged \<^verbatim>\<open>color\<close>.
\<close>

fun PhongReflectance_loop ::
  "Light list \<Rightarrow> Vector \<Rightarrow> Vector \<Rightarrow> Vector \<Rightarrow> Material \<Rightarrow> Color \<Rightarrow> Color" where
  "PhongReflectance_loop [] viewer position normal material color = color"
| "PhongReflectance_loop (light # lights) viewer position normal material color =
     (let dist = Subtract (Light.Position light) position
      in if Dot normal dist \<le> 0
         then PhongReflectance_loop lights viewer position normal material color
         else
           (case Normalize dist of
              (lightVec, ok) \<Rightarrow>
                if \<not> ok
                then PhongReflectance_loop lights viewer position normal material color
                else
                  (let reflectDiff = Scale normal (2 * Dot lightVec normal);
                       reflectedLight = Subtract reflectDiff lightVec
                   in case Normalize reflectedLight of
                        (reflectedLight, ok) \<Rightarrow>
                          if \<not> ok
                          then PhongReflectance_loop lights viewer position normal material color
                          else
                            (let diffCoef = max 0 (Dot lightVec normal);
                                 diffuse =
                                   \<lparr>Red = diffCoef * Red (Light.Diffuse light)
                                            * Red (Material.Diffuse material),
                                    Green = diffCoef * Green (Light.Diffuse light)
                                            * Green (Material.Diffuse material),
                                    Blue = diffCoef * Blue (Light.Diffuse light)
                                            * Blue (Material.Diffuse material)\<rparr>;
                                 specBase = max 0 (Dot reflectedLight viewer);
                                 specCoef = Pow specBase (Alpha material);
                                 specCoef = (if specBase \<le> 0 then 0 else specCoef);
                                 specular =
                                   \<lparr>Red = specCoef * Red (Light.Specular light)
                                            * Red (Material.Specular material),
                                    Green = specCoef * Green (Light.Specular light)
                                            * Green (Material.Specular material),
                                    Blue = specCoef * Blue (Light.Specular light)
                                            * Blue (Material.Specular material)\<rparr>
                             in PhongReflectance_loop lights viewer position normal material
                                  \<lparr>Red = Red color + (Red diffuse + Red specular),
                                   Green = Green color + (Green diffuse + Green specular),
                                   Blue = Blue color + (Blue diffuse + Blue specular)\<rparr>))))"

definition PhongReflectance :: LightingModel where
  "PhongReflectance lights ambientLight viewer position normal material =
     (let color = PhongReflectance_loop lights viewer position normal material Color_zero
      in \<lparr>Red = Red color + Red ambientLight * Red (Material.Ambient material),
          Green = Green color + Green ambientLight * Green (Material.Ambient material),
          Blue = Blue color + Blue ambientLight * Blue (Material.Ambient material)\<rparr>)"

text \<open>
  The specification of the Phong model, in the words of the design: a light is front-facing
  when its direction from the position has a positive dot product with the normal, and
  normalizable when that direction can be normalized; \<open>L\<close> is the unit vector to the light,
  \<open>R\<close> is \<open>L\<close> reflected about the normal, \<open>V\<close> the direction to the viewer. The
  diffuse coefficient is \<open>max(0, L\<cdot>N)\<close>, the specular coefficient is
  \<open>max(0, R\<cdot>V)\<^sup>\<alpha>\<close>, forced to zero when \<open>R\<cdot>V \<le> 0\<close>.
\<close>

definition front_facing :: "Vector \<Rightarrow> Vector \<Rightarrow> Light \<Rightarrow> bool" where
  "front_facing position normal light \<longleftrightarrow>
     0 < Dot normal (Subtract (Light.Position light) position)"

definition normalizable :: "Vector \<Rightarrow> Light \<Rightarrow> bool" where
  "normalizable position light \<longleftrightarrow> snd (Normalize (Subtract (Light.Position light) position))"

definition light_vector :: "Vector \<Rightarrow> Light \<Rightarrow> Vector" where
  "light_vector position light = fst (Normalize (Subtract (Light.Position light) position))"

definition reflected_light :: "Vector \<Rightarrow> Vector \<Rightarrow> Light \<Rightarrow> Vector" where
  "reflected_light position normal light =
     fst (Normalize
       (Subtract (Scale normal (2 * Dot (light_vector position light) normal))
          (light_vector position light)))"

definition diffuse_coefficient :: "Vector \<Rightarrow> Vector \<Rightarrow> Light \<Rightarrow> float64" where
  "diffuse_coefficient position normal light = max 0 (Dot (light_vector position light) normal)"

definition specular_coefficient ::
  "Vector \<Rightarrow> Vector \<Rightarrow> Vector \<Rightarrow> float64 \<Rightarrow> Light \<Rightarrow> float64" where
  "specular_coefficient viewer position normal alpha light =
     (if Dot (reflected_light position normal light) viewer \<le> 0 then 0
      else (max 0 (Dot (reflected_light position normal light) viewer)) powr alpha)"

definition phong_term ::
  "(Color \<Rightarrow> float64) \<Rightarrow> Vector \<Rightarrow> Vector \<Rightarrow> Vector \<Rightarrow> Material \<Rightarrow> Light \<Rightarrow> float64" where
  "phong_term channel viewer position normal material light =
     diffuse_coefficient position normal light
       * channel (Light.Diffuse light) * channel (Material.Diffuse material)
     + specular_coefficient viewer position normal (Alpha material) light
       * channel (Light.Specular light) * channel (Material.Specular material)"

text \<open>
  \<^verbatim>\<open>AverageColors\<close>: the loop that sums the channels, and the division by
  \<^verbatim>\<open>float64(len(colors))\<close>, which is zero for an empty slice.
\<close>

fun AverageColors_loop :: "Color list \<Rightarrow> Color \<Rightarrow> Color" where
  "AverageColors_loop [] average = average"
| "AverageColors_loop (color # colors) average =
     AverageColors_loop colors
       \<lparr>Red = Red average + Red color,
        Green = Green average + Green color,
        Blue = Blue average + Blue color\<rparr>"

definition AverageColors :: "(float64 \<Rightarrow> float64) \<Rightarrow> Color list \<Rightarrow> Color" where
  "AverageColors nonfinite colors =
     (let average = AverageColors_loop colors Color_zero
      in \<lparr>Red = float64_div nonfinite (Red average) (real (length colors)),
          Green = float64_div nonfinite (Green average) (real (length colors)),
          Blue = float64_div nonfinite (Blue average) (real (length colors))\<rparr>)"

section \<open>Objects (pkg/raytracing/object)\<close>

text \<open>
  The interface \<^verbatim>\<open>Object\<close>: a value with the three methods \<^verbatim>\<open>Intersect\<close>,
  \<^verbatim>\<open>SurfaceNormal\<close> and \<^verbatim>\<open>MaterialID\<close>. \<^verbatim>\<open>Intersect\<close> returns the hit flag and the
  scaling value.
\<close>

record Object =
  Intersect :: "Ray \<Rightarrow> float64 \<Rightarrow> bool \<times> float64"
  SurfaceNormal :: "Vector \<Rightarrow> Vector"
  MaterialID :: int

text \<open>
  The sphere. The embedded struct \<^verbatim>\<open>*Material\<close> holds the material index in its field
  \<^verbatim>\<open>Material\<close>. Of its methods only \<^verbatim>\<open>Intersect\<close> is modelled: \<^verbatim>\<open>SurfaceNormal\<close> in
  \<^verbatim>\<open>sphere.go\<close> takes a ray, not the point of the interface. The box and the triangle
  of the package are not modelled; the statements about the scene hold for every object
  whose \<^verbatim>\<open>Intersect\<close> keeps the contract stated below.
\<close>

record Sphere =
  Material :: int
  Radius :: float64
  Center :: Vector

text \<open>
  \<^verbatim>\<open>Sphere.Intersect\<close>. The constant \<^verbatim>\<open>1e-4\<close> is the real number \<open>1 / 10000\<close>. The
  divisor \<open>2 * A\<close> is zero only for a ray whose direction is the zero vector; then
  \<open>B\<close> and the discriminant are zero too, Go computes \<^verbatim>\<open>0.0 / 0.0\<close>, a NaN, both
  comparisons with it are false and the result is a miss. In the model the quotient is
  \<open>0\<close> there, which fails \<open>t > 1 / 10000\<close>: the same miss
  (lemma \<open>Sphere_Intersect_zero_direction\<close>).
\<close>

definition Sphere_Intersect :: "Sphere \<Rightarrow> Ray \<Rightarrow> float64 \<Rightarrow> bool \<times> float64" where
  "Sphere_Intersect s r maxRange =
     (let A = Dot (Direction r) (Direction r);
          dist = Subtract (Ray.Position r) (Center s);
          B = 2 * Dot (Direction r) dist;
          C = Dot dist dist - (Radius s * Radius s);
          discriminant = B * B - 4 * A * C
      in if discriminant < 0 then (False, maxRange)
         else
           (let sqrtdiscr = sqrt discriminant;
                t0 = (- B + sqrtdiscr) / (2 * A);
                t1 = (- B - sqrtdiscr) / (2 * A);
                t = min t0 t1
            in if t > 1 / 10000 \<and> t < maxRange then (True, t)
               else (False, maxRange)))"

text \<open>
  The specification of the sphere test, in the words of the design: the points of the ray
  are \<open>O + tD\<close>, and \<open>t\<close> solves the sphere's equation when \<open>|O + tD - C|\<^sup>2 = r\<^sup>2\<close>.
  The coefficients of that quadratic in \<open>t\<close>, its discriminant and the smaller of its two
  roots are named here for the statement of the refinement.
\<close>

definition ray_point :: "Ray \<Rightarrow> float64 \<Rightarrow> Vector" where
  "ray_point r t = Add (Ray.Position r) (Scale (Direction r) t)"

definition on_sphere :: "Sphere \<Rightarrow> Ray \<Rightarrow> float64 \<Rightarrow> bool" where
  "on_sphere s r t \<longleftrightarrow>
     Dot (Subtract (ray_point r t) (Center s)) (Subtract (ray_point r t) (Center s))
       = Radius s * Radius s"

definition quadratic_A :: "Sphere \<Rightarrow> Ray \<Rightarrow> float64" where
  "quadratic_A s r = Dot (Direction r) (Direction r)"

definition quadratic_B :: "Sphere \<Rightarrow> Ray \<Rightarrow> float64" where
  "quadratic_B s r = 2 * Dot (Direction r) (Subtract (Ray.Position r) (Center s))"

definition quadratic_C :: "Sphere \<Rightarrow> Ray \<Rightarrow> float64" where
  "quadratic_C s r =
     Dot (Subtract (Ray.Position r) (Center s)) (Subtract (Ray.Position r) (Center s))
       - Radius s * Radius s"

definition discriminant :: "Sphere \<Rightarrow> Ray \<Rightarrow> float64" where
  "discriminant s r =
     quadratic_B s r * quadratic_B s r - 4 * quadratic_A s r * quadratic_C s r"

definition smaller_root :: "Sphere \<Rightarrow> Ray \<Rightarrow> float64" where
  "smaller_root s r =
     min ((- quadratic_B s r + sqrt (discriminant s r)) / (2 * quadratic_A s r))
         ((- quadratic_B s r - sqrt (discriminant s r)) / (2 * quadratic_A s r))"

definition larger_root :: "Sphere \<Rightarrow> Ray \<Rightarrow> float64" where
  "larger_root s r =
     max ((- quadratic_B s r + sqrt (discriminant s r)) / (2 * quadratic_A s r))
         ((- quadratic_B s r - sqrt (discriminant s r)) / (2 * quadratic_A s r))"

text \<open>
  The plane (unnamed source file of package \<^verbatim>\<open>object\<close>). The divisor of
  \<^verbatim>\<open>Plane.Intersect\<close> has absolute value at least \<^verbatim>\<open>1e-8\<close> where it is used.
\<close>

record Plane =
  Material :: int
  Normal :: Vector
  Point :: Vector

definition Plane_Intersect :: "Plane \<Rightarrow> Ray \<Rightarrow> float64 \<Rightarrow> bool \<times> float64" where
  "Plane_Intersect p r maxRange =
     (let denominator = Dot (Direction r) (Normal p)
      in if \<bar>denominator\<bar> < 1 / 100000000 then (False, maxRange)
         else
           (let delta = Subtract (Point p) (Ray.Position r);
                numerator = Dot delta (Normal p);
                t = numerator / denominator
            in if t > 1 / 10000 \<and> t < maxRange then (True, t)
               else (False, maxRange)))"

definition Plane_SurfaceNormal :: "Plane \<Rightarrow> Vector \<Rightarrow> Vector" where
  "Plane_SurfaceNormal p point = Normal p"

text \<open>A \<^verbatim>\<open>Plane\<close> value seen through the interface \<^verbatim>\<open>Object\<close>: its method set.\<close>

definition Plane_Object :: "Plane \<Rightarrow> Object" where
  "Plane_Object p =
     \<lparr>Intersect = Plane_Intersect p,
      SurfaceNormal = Plane_SurfaceNormal p,
      MaterialID = Plane.Material p\<rparr>"

section \<open>The scene (unnamed source file of package \<^verbatim>\<open>scene\<close>)\<close>

record Scene =
  Materials :: "Material list"
  Objects :: "Object list"
  Lights :: "Light list"
  ambientLight :: Color

text \<open>
  The error of \<^verbatim>\<open>Initialize\<close>, "invalid material id in object i", and its two loops:
  the validation of the material indices, where \<open>i\<close> is the index of the object at the
  head of the list, and the sum of the ambient colors of the lights.
\<close>

datatype error = InvalidMaterialId int

fun Initialize_validate :: "Scene \<Rightarrow> Object list \<Rightarrow> int \<Rightarrow> error option" where
  "Initialize_validate s [] i = None"
| "Initialize_validate s (object # objects) i =
     (let materialID = MaterialID object
      in if materialID < 0 \<or> materialID \<ge> int (length (Materials s))
         then Some (InvalidMaterialId i)
         else Initialize_validate s objects (i + 1))"

fun Initialize_sum :: "Light list \<Rightarrow> Color \<Rightarrow> Color" where
  "Initialize_sum [] ambient = ambient"
| "Initialize_sum (light # lights) ambient =
     Initialize_sum lights
       \<lparr>Red = Red ambient + Red (Light.Ambient light),
        Green = Green ambient + Green (Light.Ambient light),
        Blue = Blue ambient + Blue (Light.Ambient light)\<rparr>"

text \<open>
  \<^verbatim>\<open>Initialize\<close> has a pointer receiver: the result is the error (\<open>None\<close> for
  \<^verbatim>\<open>nil\<close>) and the scene as the call leaves it. The divisor
  \<^verbatim>\<open>float64(len(s.Lights))\<close> is zero for a scene without lights.
\<close>

definition Initialize :: "(float64 \<Rightarrow> float64) \<Rightarrow> Scene \<Rightarrow> error option \<times> Scene" where
  "Initialize nonfinite s =
     (case Initialize_validate s (Objects s) 0 of
        Some e \<Rightarrow> (Some e, s)
      | None \<Rightarrow>
          (let s = s\<lparr>ambientLight := Color_zero\<rparr>;
               s = s\<lparr>ambientLight := Initialize_sum (Lights s) (ambientLight s)\<rparr>
           in (None,
               s\<lparr>ambientLight :=
                   \<lparr>Red = float64_div nonfinite (Red (ambientLight s)) (real (length (Lights s))),
                    Green = float64_div nonfinite (Green (ambientLight s)) (real (length (Lights s))),
                    Blue = float64_div nonfinite (Blue (ambientLight s)) (real (length (Lights s)))\<rparr>\<rparr>)))"

text \<open>
  The loop of \<^verbatim>\<open>FindIntersection\<close> over \<^verbatim>\<open>s.Objects\<close>: \<open>i\<close> is the index of the
  object at the head of the list, the state is \<^verbatim>\<open>currentObject\<close> and \<^verbatim>\<open>t\<close>. Each
  \<^verbatim>\<open>Intersect\<close> is called with the current \<^verbatim>\<open>t\<close> as \<^verbatim>\<open>maxRange\<close> and overwrites it.
\<close>

fun FindIntersection_loop ::
  "Object list \<Rightarrow> Ray \<Rightarrow> int \<Rightarrow> int \<times> float64 \<Rightarrow> int \<times> float64" where
  "FindIntersection_loop [] r i (currentObject, t) = (currentObject, t)"
| "FindIntersection_loop (object # objects) r i (currentObject, t) =
     (case Intersect object r t of
        (intersected, t') \<Rightarrow>
          FindIntersection_loop objects r (i + 1)
            (if intersected then i else currentObject, t'))"

definition FindIntersection :: "Scene \<Rightarrow> Ray \<Rightarrow> bool \<times> float64 \<times> int" where
  "FindIntersection s r =
     (case FindIntersection_loop (Objects s) r 0 (- 1, 20000) of
        (currentObject, t) \<Rightarrow> (currentObject \<noteq> - 1, t, currentObject))"

text \<open>
  The contract of \<^verbatim>\<open>Intersect\<close> that the comment of every implementation states
  ("whether there is an intersection with r within maxRange, and if so where it occurred.
  If there is no intersection, the scaling value will be maxRange"): on the ray \<open>r\<close> the
  object has at most one candidate distance \<open>c\<close>, which does not depend on
  \<open>maxRange\<close>; the call reports it when it lies strictly between \<open>1 / 10000\<close> and
  \<open>maxRange\<close> and returns \<open>maxRange\<close> unchanged otherwise.
\<close>

definition Intersect_contract :: "(Ray \<Rightarrow> float64 \<Rightarrow> bool \<times> float64) \<Rightarrow> Ray \<Rightarrow> bool" where
  "Intersect_contract f r \<longleftrightarrow>
     (\<exists>c. \<forall>maxRange. f r maxRange =
        (case c of
           None \<Rightarrow> (False, maxRange)
         | Some t \<Rightarrow> if 1 / 10000 < t \<and> t < maxRange then (True, t) else (False, maxRange)))"

text \<open>
  Indexing a slice: Go panics with "index out of range" when the index is negative or not
  below the length.
\<close>

datatype panic = IndexOutOfRange

definition index :: "'a list \<Rightarrow> int \<Rightarrow> panic + 'a" where
  "index xs i = (if 0 \<le> i \<and> i < int (length xs) then Inr (xs ! nat i) else Inl IndexOutOfRange)"

text \<open>
  The loop of \<^verbatim>\<open>TraceRay\<close> over \<^verbatim>\<open>s.Lights\<close>, which appends to \<^verbatim>\<open>visibleLights\<close>
  the lights that pass the shadow test.
\<close>

fun TraceRay_visibleLights :: "Scene \<Rightarrow> Vector \<Rightarrow> Light list \<Rightarrow> Light list \<Rightarrow> Light list" where
  "TraceRay_visibleLights s intersection [] visibleLights = visibleLights"
| "TraceRay_visibleLights s intersection (light # lights) visibleLights =
     (let lightRay =
            \<lparr>Ray.Position = intersection,
             Direction = Subtract (Light.Position light) intersection\<rparr>
      in case FindIntersection s lightRay of
           (intersected, distance, _) \<Rightarrow>
             if \<not> intersected
             then TraceRay_visibleLights s intersection lights (visibleLights @ [light])
             else if distance > 1
             then TraceRay_visibleLights s intersection lights (visibleLights @ [light])
             else TraceRay_visibleLights s intersection lights visibleLights)"

text \<open>
  \<^verbatim>\<open>TraceRay\<close>. The result is the color, or the panic of an index out of range
  (\<^verbatim>\<open>s.Objects[currentObject]\<close>, \<^verbatim>\<open>s.Materials[...]\<close>). The named result \<^verbatim>\<open>color\<close>
  and the variable \<^verbatim>\<open>reflectedColor\<close> start as the zero color. The recursion is on
  \<^verbatim>\<open>remainingDepth\<close>, a Go \<^verbatim>\<open>int\<close>; it only decreases while positive, so it does not
  wrap around.
\<close>

function TraceRay :: "Scene \<Rightarrow> Ray \<Rightarrow> float64 \<Rightarrow> int \<Rightarrow> LightingModel \<Rightarrow> panic + Color" where
  "TraceRay s r lightStrength remainingDepth lighting =
     (case FindIntersection s r of
        (intersected, t, currentObject) \<Rightarrow>
          if \<not> intersected then Inr Color_zero
          else
            (let scaled = Scale (Direction r) t;
                 intersection = Add (Ray.Position r) scaled
             in case index (Objects s) currentObject of
                  Inl e \<Rightarrow> Inl e
                | Inr object \<Rightarrow>
                    (let normal = SurfaceNormal object intersection
                     in case index (Materials s) (MaterialID object) of
                          Inl e \<Rightarrow> Inl e
                        | Inr material \<Rightarrow>
                            (case Normalize (Negative (Direction r)) of
                               (viewer, ok) \<Rightarrow>
                                 if \<not> ok then Inr Color_zero
                                 else
                                   (let visibleLights =
                                          TraceRay_visibleLights s intersection (Lights s) [];
                                        surfaceColor =
                                          lighting visibleLights (ambientLight s) viewer
                                            intersection normal material;
                                        color =
                                          \<lparr>Red = Red Color_zero + Red surfaceColor * lightStrength,
                                           Green = Green Color_zero + Green surfaceColor * lightStrength,
                                           Blue = Blue Color_zero + Blue surfaceColor * lightStrength\<rparr>;
                                        reflect = 2 * Dot (Direction r) normal;
                                        direction = Subtract (Direction r) (Scale normal reflect);
                                        reflected =
                                          \<lparr>Ray.Position = intersection,
                                           Direction = fst (Normalize direction)\<rparr>
                                    in if remainingDepth > 0
                                       then
                                         (case TraceRay s reflected
                                                 (lightStrength * Reflectance material)
                                                 (remainingDepth - 1) lighting of
                                            Inl e \<Rightarrow> Inl e
                                          | Inr reflectedColor \<Rightarrow>
                                              Inr \<lparr>Red = Red color + Red reflectedColor,
                                                   Green = Green color + Green reflectedColor,
                                                   Blue = Blue color + Blue reflectedColor\<rparr>)
                                       else
                                         Inr \<lparr>Red = Red color + Red Color_zero,
                                              Green = Green color + Green Color_zero,
                                              Blue = Blue color + Blue Color_zero\<rparr>)))))"
  by pat_completeness auto
termination
  by (relation "measure (\<lambda>(s, r, lightStrength, remainingDepth, lighting). nat remainingDepth)") auto

text \<open>
  Names for the statements about \<^verbatim>\<open>TraceRay\<close>. The shadow ray of a light at a hit point
  and the visibility test are the ones of the loop over the lights; the reflected ray is
  the value of \<^verbatim>\<open>r\<close> at the recursive call. \<open>TraceRay_call x y\<close> says that the body of
  \<^verbatim>\<open>TraceRay\<close>, run on the arguments \<open>x\<close>, reaches its recursive call, with the arguments
  \<open>y\<close>: it is the call relation \<open>TraceRay_rel\<close> that the definition of \<open>TraceRay\<close>
  gives rise to, read from caller to callee (lemma \<open>TraceRay_call_iff\<close> spells it out).
\<close>

definition shadow_ray :: "Vector \<Rightarrow> Light \<Rightarrow> Ray" where
  "shadow_ray intersection light =
     \<lparr>Ray.Position = intersection, Direction = Subtract (Light.Position light) intersection\<rparr>"

definition light_visible :: "Scene \<Rightarrow> Vector \<Rightarrow> Light \<Rightarrow> bool" where
  "light_visible s intersection light =
     (case FindIntersection s (shadow_ray intersection light) of
        (intersected, distance, _) \<Rightarrow> \<not> intersected \<or> distance > 1)"

text \<open>
  The body of the loop over the lights, for one light, with the comparisons it evaluates
  made explicit. The statement is
  \<^verbatim>\<open>if !intersected { append } else if distance > 1.0 { append }\<close>: Go evaluates the
  condition of the \<^verbatim>\<open>else if\<close> only when \<^verbatim>\<open>intersected\<close> is true. The first component says
  whether the light is appended to \<^verbatim>\<open>visibleLights\<close>; the second lists the values
  that the run compares with \<open>1.0\<close>: none in the first branch, \<^verbatim>\<open>distance\<close> otherwise.
\<close>

definition TraceRay_shadowTest :: "Scene \<Rightarrow> Vector \<Rightarrow> Light \<Rightarrow> bool \<times> float64 list" where
  "TraceRay_shadowTest s intersection light =
     (let lightRay = \<lparr>Ray.Position = intersection, Direction = Subtract (Light.Position light) intersection\<rparr>
      in case FindIntersection s lightRay of
           (intersected, distance, _) \<Rightarrow>
             if \<not> intersected then (True, [])
             else if distance > 1 then (True, [distance])
             else (False, [distance]))"

definition reflected_ray :: "Ray \<Rightarrow> Vector \<Rightarrow> Vector \<Rightarrow> Ray" where
  "reflected_ray r intersection normal =
     \<lparr>Ray.Position = intersection,
      Direction =
        fst (Normalize (Subtract (Direction r) (Scale normal (2 * Dot (Direction r) normal))))\<rparr>"

type_synonym TraceRay_args = "Scene \<times> Ray \<times> float64 \<times> int \<times> LightingModel"

definition TraceRay_call :: "TraceRay_args \<Rightarrow> TraceRay_args \<Rightarrow> bool" where
  "TraceRay_call caller callee \<longleftrightarrow> TraceRay_rel callee caller"

definition remainingDepth_of :: "TraceRay_args \<Rightarrow> int" where
  "remainingDepth_of args = (case args of (s, r, lightStrength, remainingDepth, lighting) \<Rightarrow> remainingDepth)"

section \<open>The camera (internal/camera/camera.go)\<close>

text \<open>
  \<^verbatim>\<open>color.RGBA\<close> and the conversion \<^verbatim>\<open>uint8(x)\<close> of a \<^verbatim>\<open>float64\<close>: the fraction is
  discarded (truncation towards zero). A value that \<^verbatim>\<open>uint8\<close> cannot represent gives an
  implementation-dependent result in Go, left to the parameter \<open>unrepresentable\<close>.
\<close>

record RGBA =
  R :: "8 word"
  G :: "8 word"
  B :: "8 word"
  A :: "8 word"

definition uint8_of_float64 :: "(float64 \<Rightarrow> 8 word) \<Rightarrow> float64 \<Rightarrow> 8 word" where
  "uint8_of_float64 unrepresentable x =
     (if - 1 < x \<and> x < 256 then word_of_int (if 0 \<le> x then \<lfloor>x\<rfloor> else \<lceil>x\<rceil>)
      else unrepresentable x)"

text \<open>
  The output buffer \<^verbatim>\<open>c.output\<close>, an \<^verbatim>\<open>image.RGBA\<close> of the Go standard library with the
  bounds \<^verbatim>\<open>image.Rect(0, 0, imageWidth, imageHeight)\<close>: its method \<^verbatim>\<open>Set\<close> stores the
  color of a point within the bounds and ignores any other point.
\<close>

record Image =
  Width :: int
  Height :: int
  Pix :: "int \<times> int \<Rightarrow> RGBA"

definition Image_Set :: "Image \<Rightarrow> int \<Rightarrow> int \<Rightarrow> RGBA \<Rightarrow> Image" where
  "Image_Set img x y c =
     (if 0 \<le> x \<and> x < Width img \<and> 0 \<le> y \<and> y < Height img
      then img\<lparr>Pix := (Pix img)((x, y) := c)\<rparr>
      else img)"

text \<open>
  The rays of one pixel, from the two inner loops of \<^verbatim>\<open>Render\<close>, in the order in which
  they are appended. The lens method \<^verbatim>\<open>generateLightRay\<close> and the scope are parameters.
  The divisors are \<^verbatim>\<open>float64\<close> values of the anti-aliasing factor, which the decoder
  admits from 1 on, and of the image size, which is positive when there is a pixel.
\<close>

definition Render_rays ::
  "(float64 \<Rightarrow> float64 \<Rightarrow> 'scope \<Rightarrow> Ray) \<Rightarrow> 'scope \<Rightarrow> int \<Rightarrow> int \<Rightarrow> int \<Rightarrow> int \<Rightarrow> int \<Rightarrow> Ray list" where
  "Render_rays generateLightRay scope antiAliasingFactor imageWidth imageHeight pixelX pixelY =
     (let antiAliasingIncrement = 1 / of_int antiAliasingFactor
      in concat (map (\<lambda>i. map (\<lambda>j.
           (let pixelX' = (of_int pixelX + of_int i * antiAliasingIncrement) / of_int imageWidth;
                pixelY' = (of_int pixelY + of_int j * antiAliasingIncrement) / of_int imageHeight;
                screenX = 2 * pixelX' - 1;
                screenY = - 2 * pixelY' + 1
            in generateLightRay screenX screenY scope))
           [0..antiAliasingFactor - 1]) [0..antiAliasingFactor - 1]))"

text \<open>
  \<^verbatim>\<open>renderRays\<close> for one pixel, without the wait group and the semaphore. The call
  \<^verbatim>\<open>s.TraceRay(ray, 1.0, maxRayReflections)\<close> has three arguments, an earlier signature
  than the \<^verbatim>\<open>TraceRay\<close> above; the traced color is the parameter \<open>trace\<close>. The result
  is the output buffer after \<^verbatim>\<open>c.output.Set\<close>.
\<close>

fun renderRays_loop ::
  "(Ray \<Rightarrow> float64 \<Rightarrow> int \<Rightarrow> Color) \<Rightarrow> Ray list \<Rightarrow> int \<Rightarrow> Color list \<Rightarrow> Color list" where
  "renderRays_loop trace [] maxRayReflections colors = colors"
| "renderRays_loop trace (ray # rays) maxRayReflections colors =
     renderRays_loop trace rays maxRayReflections (colors @ [trace ray 1 maxRayReflections])"

definition renderRays ::
  "(float64 \<Rightarrow> float64) \<Rightarrow> (float64 \<Rightarrow> 8 word) \<Rightarrow> (Ray \<Rightarrow> float64 \<Rightarrow> int \<Rightarrow> Color) \<Rightarrow>
   Image \<Rightarrow> Ray list \<Rightarrow> int \<Rightarrow> int \<Rightarrow> int \<Rightarrow> Image" where
  "renderRays nonfinite unrepresentable trace output rays pixelX pixelY maxRayReflections =
     (let colors = renderRays_loop trace rays maxRayReflections [];
          pixelColor = AverageColors nonfinite colors;
          red = min (Red pixelColor * 255) 255;
          green = min (Green pixelColor * 255) 255;
          blue = min (Blue pixelColor * 255) 255
      in Image_Set output pixelX pixelY
           \<lparr>R = uint8_of_float64 unrepresentable red,
            G = uint8_of_float64 unrepresentable green,
            B = uint8_of_float64 unrepresentable blue,
            A = 255\<rparr>)"

text \<open>
  The arithmetic mean of a channel over the traced colors of a list of rays, for the
  statement about \<^verbatim>\<open>renderRays\<close>.
\<close>

definition mean_channel ::
  "(Color \<Rightarrow> float64) \<Rightarrow> (Ray \<Rightarrow> float64 \<Rightarrow> int \<Rightarrow> Color) \<Rightarrow> Ray list \<Rightarrow> int \<Rightarrow> float64" where
  "mean_channel channel trace rays maxRayReflections =
     (\<Sum>ray \<leftarrow> rays. channel (trace ray 1 maxRayReflections)) / real (length rays)"

section \<open>Example scene\<close>

text \<open>
  Concrete inputs on which the theorems below are evaluated. The planes are orthogonal to
  the z-axis, with the normal \<open>(0, 0, n)\<close>; the ray starts at the origin and runs along
  the z-axis. The scene holds the planes \<open>z = 5\<close> and \<open>z = 3\<close>, in this order, and
  three lights on the z-axis: in front of both planes, behind both, and between them. The
  mirror scene holds two planes that face each other, \<open>z = - 3\<close> and \<open>z = 3\<close>, of a
  material with reflectance 1, and no light.
\<close>

definition example_plane :: "float64 \<Rightarrow> float64 \<Rightarrow> Plane" where
  "example_plane z n =
     \<lparr>Plane.Material = 0, Normal = \<lparr>X = 0, Y = 0, Z = n\<rparr>, Point = \<lparr>X = 0, Y = 0, Z = z\<rparr>\<rparr>"

definition example_ray :: Ray where
  "example_ray = \<lparr>Ray.Position = \<lparr>X = 0, Y = 0, Z = 0\<rparr>, Direction = \<lparr>X = 0, Y = 0, Z = 1\<rparr>\<rparr>"

definition white :: Color where
  "white = \<lparr>Red = 1, Green = 1, Blue = 1\<rparr>"

definition example_material :: Material where
  "example_material =
     \<lparr>Material.Specular = white, Diffuse = white, Ambient = white, Alpha = 2,
      Reflectance = 1\<rparr>"

definition example_light :: "float64 \<Rightarrow> Light" where
  "example_light z =
     \<lparr>Light.Position = \<lparr>X = 0, Y = 0, Z = z\<rparr>, Specular = white, Diffuse = white,
      Ambient = white\<rparr>"

definition example_scene :: Scene where
  "example_scene =
     \<lparr>Materials = [example_material],
      Objects = [Plane_Object (example_plane 5 (- 1)), Plane_Object (example_plane 3 (- 1))],
      Lights = [example_light 1, example_light 10, example_light 4],
      ambientLight = white\<rparr>"

definition mirror_scene :: Scene where
  "mirror_scene =
     \<lparr>Materials = [example_material],
      Objects = [Plane_Object (example_plane (- 3) 1), Plane_Object (example_plane 3 (- 1))],
      Lights = [],
      ambientLight = white\<rparr>"

text \<open>
  A lens and a tracing function for the examples: the ray of the screen point \<open>(x, y)\<close>
  starts there, and its traced color has the y-coordinate of the start as red channel and
  the constant 2 as green channel. The image is a single pixel.
\<close>

definition example_lens :: "float64 \<Rightarrow> float64 \<Rightarrow> unit \<Rightarrow> Ray" where
  "example_lens screenX screenY scope =
     \<lparr>Ray.Position = \<lparr>X = screenX, Y = screenY, Z = 0\<rparr>, Direction = \<lparr>X = 0, Y = 0, Z = 1\<rparr>\<rparr>"

definition example_trace :: "Ray \<Rightarrow> float64 \<Rightarrow> int \<Rightarrow> Color" where
  "example_trace ray lightStrength remainingDepth =
     \<lparr>Red = Y (Ray.Position ray), Green = 2, Blue = 0\<rparr>"

definition example_image :: Image where
  "example_image = \<lparr>Width = 1, Height = 1, Pix = (\<lambda>point. \<lparr>R = 0, G = 0, B = 0, A = 0\<rparr>)\<rparr>"

text \<open>A lighting model for the examples: the red channel counts the lights it is given.\<close>

definition count_lights :: LightingModel where
  "count_lights lights ambient viewer position normal material =
     \<lparr>Red = real (length lights), Green = 0, Blue = 0\<rparr>"

section \<open>Properties of the vector algebra\<close>

lemma Dot_self_nonneg: "0 \<le> Dot v v"
  by (simp add: Dot_def)

lemma Magnitude_nonneg: "0 \<le> Magnitude v"
  by (simp add: Magnitude_def Dot_self_nonneg)

lemma Dot_Scale_Scale: "Dot (Scale v a) (Scale v a) = a * a * Dot v v"
  by (simp add: Dot_def Scale_def algebra_simps)

lemma Magnitude_Scale_inverse:
  assumes "Magnitude v \<noteq> 0"
  shows "Magnitude (Scale v (1 / Magnitude v)) = 1"
proof -
  let ?m = "Magnitude v"
  have m_pos: "0 < ?m"
    using assms Magnitude_nonneg [of v] by simp
  have sq: "?m * ?m = Dot v v"
    by (simp add: Magnitude_def Dot_self_nonneg)
  have "Dot (Scale v (1 / ?m)) (Scale v (1 / ?m)) = (1 / ?m) * (1 / ?m) * (?m * ?m)"
    by (simp only: Dot_Scale_Scale sq)
  also have "\<dots> = 1"
    using m_pos by simp
  finally show ?thesis
    by (simp add: Magnitude_def)
qed

subsection \<open>Normalize in binary64 arithmetic\<close>

















section \<open>The sphere's quadratic\<close>

lemma completing_square:
  fixes a b c t :: real
  shows "4 * a * (a * t * t + b * t + c) = (2 * a * t + b) * (2 * a * t + b) - (b * b - 4 * a * c)"
  by (simp add: algebra_simps)

lemma quadratic_no_root:
  fixes a b c t :: real
  assumes "b * b - 4 * a * c < 0"
  shows "a * t * t + b * t + c \<noteq> 0"
proof
  assume "a * t * t + b * t + c = 0"
  then have "(2 * a * t + b) * (2 * a * t + b) - (b * b - 4 * a * c) = 0"
    using completing_square [of a t b c] by simp
  moreover have "0 \<le> (2 * a * t + b) * (2 * a * t + b)"
    by simp
  ultimately show False
    using assms by linarith
qed

lemma quadratic_root_iff:
  fixes a b c t :: real
  assumes a: "0 < a" and d: "0 \<le> b * b - 4 * a * c"
  shows "a * t * t + b * t + c = 0 \<longleftrightarrow>
         t = (- b + sqrt (b * b - 4 * a * c)) / (2 * a) \<or>
         t = (- b - sqrt (b * b - 4 * a * c)) / (2 * a)"
proof -
  let ?d = "b * b - 4 * a * c"
  let ?q = "sqrt ?d"
  have qq: "?q * ?q = ?d"
    using d by simp
  have "a * t * t + b * t + c = 0 \<longleftrightarrow> 4 * a * (a * t * t + b * t + c) = 0"
    using a by simp
  also have "\<dots> \<longleftrightarrow> (2 * a * t + b) * (2 * a * t + b) - ?q * ?q = 0"
    by (simp only: completing_square qq)
  also have "\<dots> \<longleftrightarrow> (2 * a * t + b - ?q) * (2 * a * t + b + ?q) = 0"
    by (simp add: algebra_simps)
  also have "\<dots> \<longleftrightarrow> 2 * a * t + b - ?q = 0 \<or> 2 * a * t + b + ?q = 0"
    by simp
  also have "\<dots> \<longleftrightarrow> t = (- b + ?q) / (2 * a) \<or> t = (- b - ?q) / (2 * a)"
    using a by (auto simp add: field_simps)
  finally show ?thesis .
qed

lemma quadratic_roots_ordered:
  fixes a b d :: real
  assumes a: "0 < a" and d: "0 \<le> d"
  shows "(- b - sqrt d) / (2 * a) \<le> (- b + sqrt d) / (2 * a)"
proof -
  have "- b - sqrt d \<le> - b + sqrt d"
    using d by simp
  then show ?thesis
    using a by (simp add: divide_right_mono)
qed

lemma Sphere_Intersect_eq:
  "Sphere_Intersect s r m =
     (if discriminant s r < 0 then (False, m)
      else if 1 / 10000 < smaller_root s r \<and> smaller_root s r < m then (True, smaller_root s r)
      else (False, m))"
  unfolding Sphere_Intersect_def Let_def discriminant_def smaller_root_def
      quadratic_A_def quadratic_B_def quadratic_C_def
  by (rule refl)

lemma on_sphere_quadratic:
  "on_sphere s r t \<longleftrightarrow>
     quadratic_A s r * t * t + quadratic_B s r * t + quadratic_C s r = 0"
  by (simp add: on_sphere_def ray_point_def quadratic_A_def quadratic_B_def quadratic_C_def
      Dot_def Add_def Subtract_def Scale_def algebra_simps)

lemma quadratic_A_nonneg: "0 \<le> quadratic_A s r"
  by (simp add: quadratic_A_def Dot_self_nonneg)

lemma Dot_self_zero: "Dot v v = 0 \<Longrightarrow> X v = 0 \<and> Y v = 0 \<and> Z v = 0"
proof -
  assume h: "Dot v v = 0"
  have "0 \<le> X v * X v" "0 \<le> Y v * Y v" "0 \<le> Z v * Z v"
    by simp_all
  with h have "X v * X v = 0 \<and> Y v * Y v = 0 \<and> Z v * Z v = 0"
    unfolding Dot_def by linarith
  then show ?thesis by simp
qed

lemma Sphere_Intersect_zero_direction:
  assumes "Dot (Direction r) (Direction r) = 0"
  shows "Sphere_Intersect s r m = (False, m)"
proof -
  have "quadratic_A s r = 0"
    using assms by (simp add: quadratic_A_def)
  then have "smaller_root s r = 0"
    by (simp add: smaller_root_def)
  then show ?thesis
    by (simp add: Sphere_Intersect_eq)
qed

lemma sphere_roots:
  assumes d: "0 \<le> discriminant s r" and a: "quadratic_A s r \<noteq> 0"
  shows "smaller_root s r \<le> larger_root s r"
    and "on_sphere s r t \<longleftrightarrow> t = smaller_root s r \<or> t = larger_root s r"
proof -
  let ?a = "quadratic_A s r" and ?b = "quadratic_B s r" and ?c = "quadratic_C s r"
  let ?t0 = "(- ?b + sqrt (discriminant s r)) / (2 * ?a)"
  let ?t1 = "(- ?b - sqrt (discriminant s r)) / (2 * ?a)"
  have pos: "0 < ?a"
    using a quadratic_A_nonneg [of s r] by simp
  have le: "?t1 \<le> ?t0"
    using pos d by (rule quadratic_roots_ordered)
  have sm: "smaller_root s r = ?t1" and lg: "larger_root s r = ?t0"
    using le by (simp_all add: smaller_root_def larger_root_def)
  show "smaller_root s r \<le> larger_root s r"
    using le by (simp only: sm lg)
  have "on_sphere s r t \<longleftrightarrow> t = ?t0 \<or> t = ?t1"
    using quadratic_root_iff [OF pos, of ?b ?c t] d
    by (simp only: on_sphere_quadratic discriminant_def)
  then show "on_sphere s r t \<longleftrightarrow> t = smaller_root s r \<or> t = larger_root s r"
    by (auto simp only: sm lg)
qed

text \<open>
  Claim C4. For every ray and every \<open>maxRange\<close>, \<^verbatim>\<open>Sphere.Intersect\<close> solves the quadratic
  of \<open>|O + tD - C|\<^sup>2 = r\<^sup>2\<close>: the points of the ray on the sphere are the roots of
  \<open>A t\<^sup>2 + B t + C\<close>. With a negative discriminant there is no such point and the result
  is \<open>(False, maxRange)\<close>. Otherwise the result is \<open>(True, t)\<close> for the smaller root \<open>t\<close>
  exactly when \<open>1 / 10000 < t < maxRange\<close>, and \<open>(False, maxRange)\<close> otherwise; for a
  direction that is not the zero vector the two roots are the only points of the ray on
  the sphere. In particular a smaller root at or below \<open>1 / 10000\<close> is a miss even when
  the larger root lies within the bounds.
\<close>

theorem Sphere_Intersect_smaller_root:
  "(\<forall>t. on_sphere s r t \<longleftrightarrow>
        quadratic_A s r * t * t + quadratic_B s r * t + quadratic_C s r = 0) \<and>
   (discriminant s r < 0 \<longrightarrow>
        Sphere_Intersect s r maxRange = (False, maxRange) \<and> (\<forall>t. \<not> on_sphere s r t)) \<and>
   (0 \<le> discriminant s r \<longrightarrow>
        Sphere_Intersect s r maxRange =
          (if 1 / 10000 < smaller_root s r \<and> smaller_root s r < maxRange
           then (True, smaller_root s r) else (False, maxRange))) \<and>
   (0 \<le> discriminant s r \<and> quadratic_A s r \<noteq> 0 \<longrightarrow>
        smaller_root s r \<le> larger_root s r \<and>
        (\<forall>t. on_sphere s r t \<longleftrightarrow> t = smaller_root s r \<or> t = larger_root s r)) \<and>
   (0 \<le> discriminant s r \<and> smaller_root s r \<le> 1 / 10000 \<and>
    1 / 10000 < larger_root s r \<and> larger_root s r < maxRange \<longrightarrow>
        Sphere_Intersect s r maxRange = (False, maxRange))"
proof (intro conjI impI allI)
  fix t
  show "on_sphere s r t \<longleftrightarrow>
        quadratic_A s r * t * t + quadratic_B s r * t + quadratic_C s r = 0"
    by (rule on_sphere_quadratic)
next
  assume "discriminant s r < 0"
  then show "Sphere_Intersect s r maxRange = (False, maxRange)"
    by (simp add: Sphere_Intersect_eq)
next
  fix t
  assume "discriminant s r < 0"
  then show "\<not> on_sphere s r t"
    unfolding on_sphere_quadratic discriminant_def by (rule quadratic_no_root)
next
  assume "0 \<le> discriminant s r"
  then show "Sphere_Intersect s r maxRange =
          (if 1 / 10000 < smaller_root s r \<and> smaller_root s r < maxRange
           then (True, smaller_root s r) else (False, maxRange))"
    by (simp add: Sphere_Intersect_eq)
next
  assume "0 \<le> discriminant s r \<and> quadratic_A s r \<noteq> 0"
  then show "smaller_root s r \<le> larger_root s r"
    using sphere_roots(1) by blast
next
  fix t
  assume "0 \<le> discriminant s r \<and> quadratic_A s r \<noteq> 0"
  then show "on_sphere s r t \<longleftrightarrow> t = smaller_root s r \<or> t = larger_root s r"
    using sphere_roots(2) by blast
next
  assume "0 \<le> discriminant s r \<and> smaller_root s r \<le> 1 / 10000 \<and>
    1 / 10000 < larger_root s r \<and> larger_root s r < maxRange"
  then show "Sphere_Intersect s r maxRange = (False, maxRange)"
    by (simp add: Sphere_Intersect_eq)
qed


theorem Sphere_Intersect_smaller_root_witness:
  "discriminant \<lparr>Sphere.Material = 0, Radius = 1, Center = \<lparr>X = 0, Y = 0, Z = 0\<rparr>\<rparr>
      \<lparr>Ray.Position = \<lparr>X = 0, Y = 0, Z = 0\<rparr>, Direction = \<lparr>X = 1, Y = 0, Z = 0\<rparr>\<rparr> = 4 \<and>
   smaller_root \<lparr>Sphere.Material = 0, Radius = 1, Center = \<lparr>X = 0, Y = 0, Z = 0\<rparr>\<rparr>
      \<lparr>Ray.Position = \<lparr>X = 0, Y = 0, Z = 0\<rparr>, Direction = \<lparr>X = 1, Y = 0, Z = 0\<rparr>\<rparr> = - 1 \<and>
   larger_root \<lparr>Sphere.Material = 0, Radius = 1, Center = \<lparr>X = 0, Y = 0, Z = 0\<rparr>\<rparr>
      \<lparr>Ray.Position = \<lparr>X = 0, Y = 0, Z = 0\<rparr>, Direction = \<lparr>X = 1, Y = 0, Z = 0\<rparr>\<rparr> = 1 \<and>
   Sphere_Intersect \<lparr>Sphere.Material = 0, Radius = 1, Center = \<lparr>X = 0, Y = 0, Z = 0\<rparr>\<rparr>
      \<lparr>Ray.Position = \<lparr>X = 0, Y = 0, Z = 0\<rparr>, Direction = \<lparr>X = 1, Y = 0, Z = 0\<rparr>\<rparr> 20000
     = (False, 20000) \<and>
   discriminant \<lparr>Sphere.Material = 0, Radius = 1, Center = \<lparr>X = 0, Y = 0, Z = 0\<rparr>\<rparr>
      \<lparr>Ray.Position = \<lparr>X = 0, Y = 0, Z = - 5\<rparr>, Direction = \<lparr>X = 0, Y = 0, Z = 1\<rparr>\<rparr> = 4 \<and>
   smaller_root \<lparr>Sphere.Material = 0, Radius = 1, Center = \<lparr>X = 0, Y = 0, Z = 0\<rparr>\<rparr>
      \<lparr>Ray.Position = \<lparr>X = 0, Y = 0, Z = - 5\<rparr>, Direction = \<lparr>X = 0, Y = 0, Z = 1\<rparr>\<rparr> = 4 \<and>
   Sphere_Intersect \<lparr>Sphere.Material = 0, Radius = 1, Center = \<lparr>X = 0, Y = 0, Z = 0\<rparr>\<rparr>
      \<lparr>Ray.Position = \<lparr>X = 0, Y = 0, Z = - 5\<rparr>, Direction = \<lparr>X = 0, Y = 0, Z = 1\<rparr>\<rparr> 20000
     = (True, 4) \<and>
   on_sphere \<lparr>Sphere.Material = 0, Radius = 1, Center = \<lparr>X = 0, Y = 0, Z = 0\<rparr>\<rparr>
      \<lparr>Ray.Position = \<lparr>X = 0, Y = 0, Z = - 5\<rparr>, Direction = \<lparr>X = 0, Y = 0, Z = 1\<rparr>\<rparr> 4 \<and>
   discriminant \<lparr>Sphere.Material = 0, Radius = 1, Center = \<lparr>X = 0, Y = 0, Z = 0\<rparr>\<rparr>
      \<lparr>Ray.Position = \<lparr>X = 0, Y = 5, Z = - 5\<rparr>, Direction = \<lparr>X = 0, Y = 0, Z = 1\<rparr>\<rparr> < 0 \<and>
   Sphere_Intersect \<lparr>Sphere.Material = 0, Radius = 1, Center = \<lparr>X = 0, Y = 0, Z = 0\<rparr>\<rparr>
      \<lparr>Ray.Position = \<lparr>X = 0, Y = 5, Z = - 5\<rparr>, Direction = \<lparr>X = 0, Y = 0, Z = 1\<rparr>\<rparr> 20000
     = (False, 20000)"
proof -
  let ?s = "\<lparr>Sphere.Material = 0, Radius = 1, Center = \<lparr>X = 0, Y = 0, Z = 0\<rparr>\<rparr>"
  let ?inside = "\<lparr>Ray.Position = \<lparr>X = 0, Y = 0, Z = 0\<rparr>, Direction = \<lparr>X = 1, Y = 0, Z = 0\<rparr>\<rparr>"
  let ?front = "\<lparr>Ray.Position = \<lparr>X = 0, Y = 0, Z = - 5\<rparr>, Direction = \<lparr>X = 0, Y = 0, Z = 1\<rparr>\<rparr>"
  let ?beside = "\<lparr>Ray.Position = \<lparr>X = 0, Y = 5, Z = - 5\<rparr>, Direction = \<lparr>X = 0, Y = 0, Z = 1\<rparr>\<rparr>"
  have d1: "discriminant ?s ?inside = 4"
    by (simp add: discriminant_def quadratic_A_def quadratic_B_def quadratic_C_def
        Dot_def Subtract_def)
  have s1: "smaller_root ?s ?inside = - 1" and l1: "larger_root ?s ?inside = 1"
    by (simp_all add: smaller_root_def larger_root_def d1 quadratic_A_def quadratic_B_def
        Dot_def Subtract_def)
  have d2: "discriminant ?s ?front = 4"
    by (simp add: discriminant_def quadratic_A_def quadratic_B_def quadratic_C_def
        Dot_def Subtract_def)
  have s2: "smaller_root ?s ?front = 4"
    by (simp add: smaller_root_def d2 quadratic_A_def quadratic_B_def Dot_def Subtract_def)
  have a2: "quadratic_A ?s ?front \<noteq> 0"
    by (simp add: quadratic_A_def Dot_def)
  have d3: "discriminant ?s ?beside < 0"
    by (simp add: discriminant_def quadratic_A_def quadratic_B_def quadratic_C_def
        Dot_def Subtract_def)
  have i1: "Sphere_Intersect ?s ?inside 20000 = (False, 20000)"
    using Sphere_Intersect_smaller_root [of ?s ?inside 20000] by (simp add: d1 s1 l1)
  have i2: "Sphere_Intersect ?s ?front 20000 = (True, 4)"
    using Sphere_Intersect_smaller_root [of ?s ?front 20000] by (simp add: d2 s2)
  have "0 \<le> discriminant ?s ?front"
    by (simp add: d2)
  with Sphere_Intersect_smaller_root [of ?s ?front 20000] a2
  have "on_sphere ?s ?front (smaller_root ?s ?front)"
    by blast
  then have o2: "on_sphere ?s ?front 4"
    by (simp only: s2)
  have i3: "Sphere_Intersect ?s ?beside 20000 = (False, 20000)"
    using Sphere_Intersect_smaller_root [of ?s ?beside 20000] d3 by simp
  from d1 s1 l1 i1 d2 s2 i2 o2 d3 i3 show ?thesis
    by (intro conjI)
qed

section \<open>The contract of Intersect\<close>

lemma Sphere_Intersect_contract: "Intersect_contract (Sphere_Intersect s) r"
proof -
  have "\<forall>m. Sphere_Intersect s r m =
      (case (if discriminant s r < 0 then None else Some (smaller_root s r)) of
         None \<Rightarrow> (False, m)
       | Some t \<Rightarrow> if 1 / 10000 < t \<and> t < m then (True, t) else (False, m))"
    by (simp add: Sphere_Intersect_eq)
  then show ?thesis
    unfolding Intersect_contract_def by blast
qed

lemma Plane_Intersect_contract: "Intersect_contract (Plane_Intersect p) r"
proof -
  let ?den = "Dot (Direction r) (Normal p)"
  have "\<forall>m. Plane_Intersect p r m =
      (case (if \<bar>?den\<bar> < 1 / 100000000 then None
             else Some (Dot (Subtract (Point p) (Ray.Position r)) (Normal p) / ?den)) of
         None \<Rightarrow> (False, m)
       | Some t \<Rightarrow> if 1 / 10000 < t \<and> t < m then (True, t) else (False, m))"
    by (simp add: Plane_Intersect_def Let_def)
  then show ?thesis
    unfolding Intersect_contract_def by blast
qed

lemma contract_hit_bounds:
  assumes "Intersect_contract f r" and "f r m = (True, u)"
  shows "1 / 10000 < u \<and> u < m"
proof -
  from assms(1) obtain c where c: "\<And>m. f r m =
      (case c of None \<Rightarrow> (False, m)
       | Some t \<Rightarrow> if 1 / 10000 < t \<and> t < m then (True, t) else (False, m))"
    unfolding Intersect_contract_def by blast
  show ?thesis
    using c [of m] assms(2) by (auto split: option.splits if_splits)
qed

lemma contract_miss:
  assumes "Intersect_contract f r" and "f r m = (False, u)"
  shows "u = m"
proof -
  from assms(1) obtain c where c: "\<And>m. f r m =
      (case c of None \<Rightarrow> (False, m)
       | Some t \<Rightarrow> if 1 / 10000 < t \<and> t < m then (True, t) else (False, m))"
    unfolding Intersect_contract_def by blast
  show ?thesis
    using c [of m] assms(2) by (auto split: option.splits if_splits)
qed

lemma contract_change_range:
  assumes "Intersect_contract f r" and "f r m = (True, u)"
  shows "f r m' = (if u < m' then (True, u) else (False, m'))"
proof -
  from assms(1) obtain c where c: "\<And>m. f r m =
      (case c of None \<Rightarrow> (False, m)
       | Some t \<Rightarrow> if 1 / 10000 < t \<and> t < m then (True, t) else (False, m))"
    unfolding Intersect_contract_def by blast
  show ?thesis
    using c [of m] c [of m'] assms(2) by (auto split: option.splits if_splits)
qed

lemma contract_hit_widen:
  assumes "Intersect_contract f r" and "f r m' = (True, u)" and "m' \<le> m"
  shows "f r m = (True, u)"
proof -
  from assms(1,2) have "u < m'"
    by (simp add: contract_hit_bounds)
  with assms(3) have "u < m" by simp
  with contract_change_range [OF assms(1,2), of m] show ?thesis
    by simp
qed

lemma FindIntersection_loop_no_hit:
  assumes "\<forall>obj \<in> set objs. Intersect_contract (Intersect obj) r"
    and "\<forall>obj \<in> set objs. \<not> fst (Intersect obj r m)"
  shows "FindIntersection_loop objs r i (cur, m) = (cur, m)"
  using assms
proof (induction objs arbitrary: i)
  case Nil
  show ?case by simp
next
  case (Cons obj objs)
  obtain b u where bu: "Intersect obj r m = (b, u)"
    by (cases "Intersect obj r m")
  with Cons.prems(2) have b: "b = False"
    by auto
  with bu Cons.prems(1) have u: "u = m"
    using contract_miss [of "Intersect obj" r m u] by simp
  from Cons.IH [of "i + 1"] Cons.prems
  have "FindIntersection_loop objs r (i + 1) (cur, m) = (cur, m)"
    by simp
  with bu b u show ?case
    by simp
qed

lemma FindIntersection_loop_hit:
  assumes "\<forall>obj \<in> set objs. Intersect_contract (Intersect obj) r"
    and "\<exists>obj \<in> set objs. fst (Intersect obj r m)"
  shows "\<exists>k u. k < length objs \<and>
           FindIntersection_loop objs r i (cur, m) = (i + int k, u) \<and>
           Intersect (objs ! k) r m = (True, u) \<and>
           (\<forall>j < length objs. \<forall>v. Intersect (objs ! j) r m = (True, v) \<longrightarrow> u \<le> v) \<and>
           (\<forall>j < k. \<forall>v. Intersect (objs ! j) r m = (True, v) \<longrightarrow> u < v)"
  using assms
proof (induction objs arbitrary: i cur m)
  case Nil
  then show ?case by simp
next
  case (Cons obj objs)
  from Cons.prems(1) have c_obj: "Intersect_contract (Intersect obj) r"
    and c_objs: "\<forall>obj \<in> set objs. Intersect_contract (Intersect obj) r"
    by simp_all
  have c_nth: "Intersect_contract (Intersect (objs ! j)) r" if "j < length objs" for j
    using c_objs that by simp
  obtain b t' where bt: "Intersect obj r m = (b, t')"
    by (cases "Intersect obj r m")
  show ?case
  proof (cases b)
    case True
    with bt have hit: "Intersect obj r m = (True, t')"
      by simp
    with c_obj have t'_lt: "t' < m"
      using contract_hit_bounds by blast
    have step: "FindIntersection_loop (obj # objs) r i (cur, m) =
        FindIntersection_loop objs r (i + 1) (i, t')"
      using hit by simp
    show ?thesis
    proof (cases "\<exists>obj' \<in> set objs. fst (Intersect obj' r t')")
      case True
      from Cons.IH [OF c_objs True, of "i + 1" i]
      obtain k u where k: "k < length objs"
        and res: "FindIntersection_loop objs r (i + 1) (i, t') = (i + 1 + int k, u)"
        and at: "Intersect (objs ! k) r t' = (True, u)"
        and least: "\<forall>j < length objs. \<forall>v. Intersect (objs ! j) r t' = (True, v) \<longrightarrow> u \<le> v"
        and first: "\<forall>j < k. \<forall>v. Intersect (objs ! j) r t' = (True, v) \<longrightarrow> u < v"
        by blast
      have u_lt: "u < t'"
        using contract_hit_bounds [OF c_nth [OF k] at] by simp
      have at_m: "Intersect (objs ! k) r m = (True, u)"
        using contract_hit_widen [OF c_nth [OF k] at] t'_lt by simp
      have cmp: "u \<le> v \<and> (j < k \<longrightarrow> u < v)"
        if j: "j < length objs" and v: "Intersect (objs ! j) r m = (True, v)" for j v
      proof (cases "v < t'")
        case True
        with contract_change_range [OF c_nth [OF j] v, of t']
        have "Intersect (objs ! j) r t' = (True, v)"
          by simp
        with least first j show ?thesis
          by blast
      next
        case False
        with u_lt show ?thesis by simp
      qed
      have "Suc k < length (obj # objs)"
        using k by simp
      moreover have "FindIntersection_loop (obj # objs) r i (cur, m) = (i + int (Suc k), u)"
        using step res by simp
      moreover have "Intersect ((obj # objs) ! Suc k) r m = (True, u)"
        using at_m by simp
      moreover have "\<forall>j < length (obj # objs). \<forall>v.
          Intersect ((obj # objs) ! j) r m = (True, v) \<longrightarrow> u \<le> v"
      proof (intro allI impI)
        fix j v
        assume j: "j < length (obj # objs)"
          and v: "Intersect ((obj # objs) ! j) r m = (True, v)"
        show "u \<le> v"
        proof (cases j)
          case 0
          with v hit u_lt show ?thesis by simp
        next
          case (Suc j')
          with j v cmp [of j' v] show ?thesis by simp
        qed
      qed
      moreover have "\<forall>j < Suc k. \<forall>v.
          Intersect ((obj # objs) ! j) r m = (True, v) \<longrightarrow> u < v"
      proof (intro allI impI)
        fix j v
        assume j: "j < Suc k"
          and v: "Intersect ((obj # objs) ! j) r m = (True, v)"
        show "u < v"
        proof (cases j)
          case 0
          with v hit u_lt show ?thesis by simp
        next
          case (Suc j')
          with j v k cmp [of j' v] show ?thesis by simp
        qed
      qed
      ultimately show ?thesis
        by blast
    next
      case False
      then have none: "\<forall>obj' \<in> set objs. \<not> fst (Intersect obj' r t')"
        by blast
      have res: "FindIntersection_loop objs r (i + 1) (i, t') = (i, t')"
        using c_objs none by (rule FindIntersection_loop_no_hit)
      have cmp: "t' \<le> v"
        if j: "j < length objs" and v: "Intersect (objs ! j) r m = (True, v)" for j v
      proof (rule ccontr)
        assume "\<not> t' \<le> v"
        with contract_change_range [OF c_nth [OF j] v, of t']
        have "fst (Intersect (objs ! j) r t')"
          by simp
        with none j show False
          by simp
      qed
      have "0 < length (obj # objs)"
        by simp
      moreover have "FindIntersection_loop (obj # objs) r i (cur, m) = (i + int 0, t')"
        using step res by simp
      moreover have "Intersect ((obj # objs) ! 0) r m = (True, t')"
        using hit by simp
      moreover have "\<forall>j < length (obj # objs). \<forall>v.
          Intersect ((obj # objs) ! j) r m = (True, v) \<longrightarrow> t' \<le> v"
      proof (intro allI impI)
        fix j v
        assume j: "j < length (obj # objs)"
          and v: "Intersect ((obj # objs) ! j) r m = (True, v)"
        show "t' \<le> v"
        proof (cases j)
          case 0
          with v hit show ?thesis by simp
        next
          case (Suc j')
          with j v cmp [of j' v] show ?thesis by simp
        qed
      qed
      moreover have "\<forall>j < (0::nat). \<forall>v.
          Intersect ((obj # objs) ! j) r m = (True, v) \<longrightarrow> t' < v"
        by simp
      ultimately show ?thesis
        by blast
    qed
  next
    case False
    with bt have miss: "Intersect obj r m = (False, t')"
      by simp
    with c_obj have t': "t' = m"
      using contract_miss by blast
    have step: "FindIntersection_loop (obj # objs) r i (cur, m) =
        FindIntersection_loop objs r (i + 1) (cur, m)"
      using miss t' by simp
    from Cons.prems(2) miss have "\<exists>obj' \<in> set objs. fst (Intersect obj' r m)"
      by auto
    from Cons.IH [OF c_objs this, of "i + 1" cur]
    obtain k u where k: "k < length objs"
      and res: "FindIntersection_loop objs r (i + 1) (cur, m) = (i + 1 + int k, u)"
      and at: "Intersect (objs ! k) r m = (True, u)"
      and least: "\<forall>j < length objs. \<forall>v. Intersect (objs ! j) r m = (True, v) \<longrightarrow> u \<le> v"
      and first: "\<forall>j < k. \<forall>v. Intersect (objs ! j) r m = (True, v) \<longrightarrow> u < v"
      by blast
    have "Suc k < length (obj # objs)"
      using k by simp
    moreover have "FindIntersection_loop (obj # objs) r i (cur, m) = (i + int (Suc k), u)"
      using step res by simp
    moreover have "Intersect ((obj # objs) ! Suc k) r m = (True, u)"
      using at by simp
    moreover have "\<forall>j < length (obj # objs). \<forall>v.
        Intersect ((obj # objs) ! j) r m = (True, v) \<longrightarrow> u \<le> v"
    proof (intro allI impI)
      fix j v
      assume j: "j < length (obj # objs)"
        and v: "Intersect ((obj # objs) ! j) r m = (True, v)"
      show "u \<le> v"
      proof (cases j)
        case 0
        with v miss show ?thesis by simp
      next
        case (Suc j')
        with j v least show ?thesis by simp
      qed
    qed
    moreover have "\<forall>j < Suc k. \<forall>v.
        Intersect ((obj # objs) ! j) r m = (True, v) \<longrightarrow> u < v"
    proof (intro allI impI)
      fix j v
      assume j: "j < Suc k"
        and v: "Intersect ((obj # objs) ! j) r m = (True, v)"
      show "u < v"
      proof (cases j)
        case 0
        with v miss show ?thesis by simp
      next
        case (Suc j')
        with j v first show ?thesis by simp
      qed
    qed
    ultimately show ?thesis
      by blast
  qed
qed


lemma FindIntersection_no_hit:
  assumes "\<forall>obj \<in> set (Objects s). Intersect_contract (Intersect obj) r"
    and "\<forall>obj \<in> set (Objects s). \<not> fst (Intersect obj r 20000)"
  shows "FindIntersection s r = (False, 20000, - 1)"
  using FindIntersection_loop_no_hit [OF assms, of 0 "- 1"]
  by (simp add: FindIntersection_def)

lemma FindIntersection_hit:
  assumes "\<forall>obj \<in> set (Objects s). Intersect_contract (Intersect obj) r"
    and "\<exists>obj \<in> set (Objects s). fst (Intersect obj r 20000)"
  shows "\<exists>k u. k < length (Objects s) \<and>
           FindIntersection s r = (True, u, int k) \<and>
           Intersect (Objects s ! k) r 20000 = (True, u) \<and>
           (\<forall>j < length (Objects s). \<forall>v.
               Intersect (Objects s ! j) r 20000 = (True, v) \<longrightarrow> u \<le> v) \<and>
           (\<forall>j < k. \<forall>v. Intersect (Objects s ! j) r 20000 = (True, v) \<longrightarrow> u < v)"
proof -
  from FindIntersection_loop_hit [OF assms, of 0 "- 1"]
  obtain k u where k: "k < length (Objects s)"
    and res: "FindIntersection_loop (Objects s) r 0 (- 1, 20000) = (0 + int k, u)"
    and rest: "Intersect (Objects s ! k) r 20000 = (True, u)"
      "\<forall>j < length (Objects s). \<forall>v.
               Intersect (Objects s ! j) r 20000 = (True, v) \<longrightarrow> u \<le> v"
      "\<forall>j < k. \<forall>v. Intersect (Objects s ! j) r 20000 = (True, v) \<longrightarrow> u < v"
    by blast
  from res have "FindIntersection s r = (True, u, int k)"
    by (simp add: FindIntersection_def)
  with k rest show ?thesis
    by blast
qed

text \<open>
  Claim C2. \<^verbatim>\<open>FindIntersection\<close> scans the object list once from left to right and
  passes the current best \<open>t\<close> to each \<^verbatim>\<open>Intersect\<close> as \<open>maxRange\<close>
  (\<open>FindIntersection_loop\<close>). When every \<^verbatim>\<open>Intersect\<close> keeps its contract (a reported
  hit lies strictly between \<open>1 / 10000\<close> and \<open>maxRange\<close>, a miss returns \<open>maxRange\<close>
  unchanged), it reports an intersection if and only if some object reports a hit; the
  returned \<open>t\<close> is then the nearest hit distance of all objects, and the returned index
  is an object with that hit distance (the first one in the list). Without a hit it
  returns the initial range and the index \<open>-1\<close>.
\<close>

theorem FindIntersection_nearest_hit:
  assumes "\<forall>obj \<in> set (Objects s). Intersect_contract (Intersect obj) r"
    and "FindIntersection s r = (intersected, t, currentObject)"
  shows "(intersected \<longleftrightarrow> (\<exists>obj \<in> set (Objects s). fst (Intersect obj r 20000))) \<and>
     (intersected \<longrightarrow>
        0 \<le> currentObject \<and> currentObject < int (length (Objects s)) \<and>
        Intersect (Objects s ! nat currentObject) r 20000 = (True, t) \<and>
        1 / 10000 < t \<and> t < 20000 \<and>
        (\<forall>obj \<in> set (Objects s). \<forall>u. Intersect obj r 20000 = (True, u) \<longrightarrow> t \<le> u) \<and>
        (\<forall>j < nat currentObject. \<forall>u.
            Intersect (Objects s ! j) r 20000 = (True, u) \<longrightarrow> t < u)) \<and>
     (\<not> intersected \<longrightarrow> t = 20000 \<and> currentObject = - 1)"
proof (cases "\<exists>obj \<in> set (Objects s). fst (Intersect obj r 20000)")
  case False
  then have "\<forall>obj \<in> set (Objects s). \<not> fst (Intersect obj r 20000)"
    by blast
  from FindIntersection_no_hit [OF assms(1) this] assms(2) False
  show ?thesis
    by simp
next
  case True
  from FindIntersection_hit [OF assms(1) True]
  obtain k u where k: "k < length (Objects s)"
    and res: "FindIntersection s r = (True, u, int k)"
    and at: "Intersect (Objects s ! k) r 20000 = (True, u)"
    and least: "\<forall>j < length (Objects s). \<forall>v.
               Intersect (Objects s ! j) r 20000 = (True, v) \<longrightarrow> u \<le> v"
    and first: "\<forall>j < k. \<forall>v. Intersect (Objects s ! j) r 20000 = (True, v) \<longrightarrow> u < v"
    by blast
  from res assms(2) have eq: "intersected" "t = u" "currentObject = int k"
    by simp_all
  have "Intersect_contract (Intersect (Objects s ! k)) r"
    using assms(1) k by simp
  from contract_hit_bounds [OF this at] have bounds: "1 / 10000 < u \<and> u < 20000" .
  have all: "\<forall>obj \<in> set (Objects s). \<forall>v. Intersect obj r 20000 = (True, v) \<longrightarrow> u \<le> v"
  proof (intro ballI allI impI)
    fix obj v
    assume "obj \<in> set (Objects s)" and v: "Intersect obj r 20000 = (True, v)"
    then obtain j where "j < length (Objects s)" "Objects s ! j = obj"
      by (auto simp add: in_set_conv_nth)
    with least v show "u \<le> v"
      by blast
  qed
  from True eq k at bounds all first show ?thesis
    by simp
qed

theorem FindIntersection_nearest_hit_witness:
  "FindIntersection example_scene example_ray = (True, 3, 1) \<and>
   Intersect (Objects example_scene ! nat 1) example_ray 20000 = (True, 3) \<and>
   Intersect (Objects example_scene ! 0) example_ray 20000 = (True, 5) \<and>
   (1 / 10000 :: real) < 3 \<and> (3 :: real) < 20000"
proof -
  have c: "\<forall>obj \<in> set (Objects example_scene). Intersect_contract (Intersect obj) example_ray"
    by (simp add: example_scene_def Plane_Object_def Plane_Intersect_contract)
  have res: "FindIntersection example_scene example_ray = (True, 3, 1)"
    by (simp add: FindIntersection_def example_scene_def example_ray_def example_plane_def
        Plane_Object_def Plane_Intersect_def Dot_def Subtract_def)
  have far: "Intersect (Objects example_scene ! 0) example_ray 20000 = (True, 5)"
    by (simp add: example_scene_def example_ray_def example_plane_def
        Plane_Object_def Plane_Intersect_def Dot_def Subtract_def)
  from FindIntersection_nearest_hit [OF c res] far res show ?thesis
    by simp
qed

section \<open>Tracing\<close>

declare TraceRay.simps [simp del]

lemma TraceRay_visibleLights_filter:
  "TraceRay_visibleLights s p lights visibleLights =
     visibleLights @ filter (light_visible s p) lights"
proof (induction lights arbitrary: visibleLights)
  case Nil
  show ?case by simp
next
  case (Cons light lights)
  obtain intersected distance i
    where res: "FindIntersection s (shadow_ray p light) = (intersected, distance, i)"
    by (cases "FindIntersection s (shadow_ray p light)")
  then have res': "FindIntersection s
      \<lparr>Ray.Position = p, Direction = Subtract (Light.Position light) p\<rparr> =
      (intersected, distance, i)"
    by (simp add: shadow_ray_def)
  have vis: "light_visible s p light \<longleftrightarrow> \<not> intersected \<or> distance > 1"
    by (simp add: light_visible_def res)
  show ?case
    by (simp add: Let_def res' vis Cons.IH)
qed

lemma TraceRay_call_iff:
  "TraceRay_call (s, r, lightStrength, remainingDepth, lighting) callee \<longleftrightarrow>
     (\<exists>t currentObject object material viewer.
        FindIntersection s r = (True, t, currentObject) \<and>
        index (Objects s) currentObject = Inr object \<and>
        index (Materials s) (MaterialID object) = Inr material \<and>
        Normalize (Negative (Direction r)) = (viewer, True) \<and>
        0 < remainingDepth \<and>
        callee =
          (s, reflected_ray r (ray_point r t) (SurfaceNormal object (ray_point r t)),
           lightStrength * Reflectance material, remainingDepth - 1, lighting))"
proof
  assume "TraceRay_call (s, r, lightStrength, remainingDepth, lighting) callee"
  then have "TraceRay_rel callee (s, r, lightStrength, remainingDepth, lighting)"
    by (simp add: TraceRay_call_def)
  then show "\<exists>t currentObject object material viewer.
        FindIntersection s r = (True, t, currentObject) \<and>
        index (Objects s) currentObject = Inr object \<and>
        index (Materials s) (MaterialID object) = Inr material \<and>
        Normalize (Negative (Direction r)) = (viewer, True) \<and>
        0 < remainingDepth \<and>
        callee =
          (s, reflected_ray r (ray_point r t) (SurfaceNormal object (ray_point r t)),
           lightStrength * Reflectance material, remainingDepth - 1, lighting)"
  proof (cases rule: TraceRay_rel.cases)
    case (1 x y xa ya xb xc b xd ba xe yb xf xg xh xi xj xk)
    from 1(2) [symmetric] 1(3) [symmetric] 1(4)
    have a: "FindIntersection s r = (True, xa, ya)"
      by simp
    from 1(10) [symmetric] 1(11)
    have d: "Normalize (Negative (Direction r)) = (xe, True)"
      by simp
    from 1(1) 1(5,6,8,15,16,17)
    have f: "callee =
          (s, reflected_ray r (ray_point r xa) (SurfaceNormal b (ray_point r xa)),
           lightStrength * Reflectance ba, remainingDepth - 1, lighting)"
      by (simp add: reflected_ray_def ray_point_def)
    from a 1(7) 1(9) d 1(18) f show ?thesis
      by blast
  qed
next
  assume "\<exists>t currentObject object material viewer.
        FindIntersection s r = (True, t, currentObject) \<and>
        index (Objects s) currentObject = Inr object \<and>
        index (Materials s) (MaterialID object) = Inr material \<and>
        Normalize (Negative (Direction r)) = (viewer, True) \<and>
        0 < remainingDepth \<and>
        callee =
          (s, reflected_ray r (ray_point r t) (SurfaceNormal object (ray_point r t)),
           lightStrength * Reflectance material, remainingDepth - 1, lighting)"
  then obtain t currentObject object material viewer where
    h: "FindIntersection s r = (True, t, currentObject)"
       "index (Objects s) currentObject = Inr object"
       "index (Materials s) (MaterialID object) = Inr material"
       "Normalize (Negative (Direction r)) = (viewer, True)"
       "0 < remainingDepth"
    and callee: "callee =
          (s, reflected_ray r (ray_point r t) (SurfaceNormal object (ray_point r t)),
           lightStrength * Reflectance material, remainingDepth - 1, lighting)"
    by blast
  have "TraceRay_rel
     (s, \<lparr>Ray.Position = Add (Ray.Position r) (Scale (Direction r) t),
          Direction = fst (Normalize (Subtract (Direction r)
             (Scale (SurfaceNormal object (Add (Ray.Position r) (Scale (Direction r) t)))
                (2 * Dot (Direction r)
                   (SurfaceNormal object (Add (Ray.Position r) (Scale (Direction r) t)))))))\<rparr>,
      lightStrength * Reflectance material, remainingDepth - 1, lighting)
     (s, r, lightStrength, remainingDepth, lighting)"
    by (rule TraceRay_rel.intros [where x = True and y = "(t, currentObject)"
          and xa = t and ya = currentObject and b = object and ba = material
          and xe = viewer and yb = True])
       (simp_all add: h)
  then show "TraceRay_call (s, r, lightStrength, remainingDepth, lighting) callee"
    by (simp add: TraceRay_call_def callee reflected_ray_def ray_point_def)
qed


lemma TraceRay_call_depth:
  assumes "TraceRay_call (s, r, lightStrength, remainingDepth, lighting) callee"
  shows "0 < remainingDepth \<and> remainingDepth_of callee = remainingDepth - 1"
  using assms unfolding TraceRay_call_iff
  by (auto simp add: remainingDepth_of_def)

lemma TraceRay_call_chain:
  assumes "(TraceRay_call ^^ n) caller callee"
  shows "remainingDepth_of callee = remainingDepth_of caller - int n \<and>
         (0 < n \<longrightarrow> int n \<le> remainingDepth_of caller)"
  using assms
proof (induction n arbitrary: callee)
  case 0
  then show ?case by simp
next
  case (Suc n)
  from Suc.prems obtain mid where mid: "(TraceRay_call ^^ n) caller mid"
    and last: "TraceRay_call mid callee"
    by (rule relpowp_Suc_E)
  obtain s r ls d l where m: "mid = (s, r, ls, d, l)"
    by (cases mid)
  from last have "0 < remainingDepth_of mid \<and> remainingDepth_of callee = remainingDepth_of mid - 1"
    unfolding m using TraceRay_call_depth [of s r ls d l callee]
    by (simp add: remainingDepth_of_def)
  with Suc.IH [OF mid] show ?case
    by simp
qed

lemma TraceRay_total: "TraceRay_dom args"
proof -
  have "nat (remainingDepth_of callee) < nat (remainingDepth_of caller)"
    if "TraceRay_rel callee caller" for callee caller
  proof -
    from that have c: "TraceRay_call caller callee"
      by (simp add: TraceRay_call_def)
    obtain s r ls d l where "caller = (s, r, ls, d, l)"
      by (cases caller)
    with c TraceRay_call_depth [of s r ls d l callee] show ?thesis
      by (simp add: remainingDepth_of_def)
  qed
  then have "wfp TraceRay_rel"
    by (rule wfp_if_convertible_to_nat)
  then show ?thesis
    by (rule accp_wfpD)
qed

text \<open>
  Claim C3. For every scene (whatever the reflectances of its materials), ray, light
  strength, lighting model and \<open>remainingDepth\<close>, \<^verbatim>\<open>TraceRay\<close> terminates: the
  arguments are in the domain on which the recursion is well-founded. It recurses only
  when \<open>remainingDepth > 0\<close>, and then with \<open>remainingDepth - 1\<close>; so for
  \<open>remainingDepth \<ge> 0\<close> every chain of \<open>n\<close> nested recursive calls has
  \<open>n \<le> remainingDepth\<close>.
\<close>

theorem TraceRay_terminates_within_depth:
  "TraceRay_dom (s, r, lightStrength, remainingDepth, lighting) \<and>
   (\<forall>callee. TraceRay_call (s, r, lightStrength, remainingDepth, lighting) callee \<longrightarrow>
       0 < remainingDepth \<and> remainingDepth_of callee = remainingDepth - 1) \<and>
   (\<forall>n callee. 0 \<le> remainingDepth \<and>
       (TraceRay_call ^^ n) (s, r, lightStrength, remainingDepth, lighting) callee \<longrightarrow>
       int n \<le> remainingDepth \<and> remainingDepth_of callee = remainingDepth - int n)"
proof (intro conjI allI impI)
  show "TraceRay_dom (s, r, lightStrength, remainingDepth, lighting)"
    by (rule TraceRay_total)
next
  fix callee
  assume "TraceRay_call (s, r, lightStrength, remainingDepth, lighting) callee"
  then show "0 < remainingDepth" and "remainingDepth_of callee = remainingDepth - 1"
    using TraceRay_call_depth by blast+
next
  fix n callee
  assume h: "0 \<le> remainingDepth \<and>
       (TraceRay_call ^^ n) (s, r, lightStrength, remainingDepth, lighting) callee"
  from TraceRay_call_chain [of n "(s, r, lightStrength, remainingDepth, lighting)" callee] h
  show "int n \<le> remainingDepth" and "remainingDepth_of callee = remainingDepth - int n"
    by (auto simp add: remainingDepth_of_def)
qed


lemmas example_defs =
  example_scene_def mirror_scene_def example_ray_def example_plane_def example_material_def
  example_light_def white_def Plane_Object_def Plane_Intersect_def Plane_SurfaceNormal_def
  FindIntersection_def index_def Normalize_def Magnitude_def Dot_def Add_def Subtract_def
  Scale_def Negative_def ray_point_def reflected_ray_def shadow_ray_def

lemma mirror_first_call:
  "TraceRay_call (mirror_scene, example_ray, 1, 2, count_lights)
     (mirror_scene,
      \<lparr>Ray.Position = \<lparr>X = 0, Y = 0, Z = 3\<rparr>, Direction = \<lparr>X = 0, Y = 0, Z = - 1\<rparr>\<rparr>,
      1, 1, count_lights)"
  unfolding TraceRay_call_iff
  apply (rule exI [of _ 3])
  apply (rule exI [of _ 1])
  apply (rule exI [of _ "Plane_Object (example_plane 3 (- 1))"])
  apply (rule exI [of _ example_material])
  apply (rule exI [of _ "\<lparr>X = 0, Y = 0, Z = - 1\<rparr>"])
  apply (simp add: example_defs)
  done

lemma mirror_second_call:
  "TraceRay_call
     (mirror_scene,
      \<lparr>Ray.Position = \<lparr>X = 0, Y = 0, Z = 3\<rparr>, Direction = \<lparr>X = 0, Y = 0, Z = - 1\<rparr>\<rparr>,
      1, 1, count_lights)
     (mirror_scene,
      \<lparr>Ray.Position = \<lparr>X = 0, Y = 0, Z = - 3\<rparr>, Direction = \<lparr>X = 0, Y = 0, Z = 1\<rparr>\<rparr>,
      1, 0, count_lights)"
  unfolding TraceRay_call_iff
  apply (rule exI [of _ 6])
  apply (rule exI [of _ 0])
  apply (rule exI [of _ "Plane_Object (example_plane (- 3) 1)"])
  apply (rule exI [of _ example_material])
  apply (rule exI [of _ "\<lparr>X = 0, Y = 0, Z = 1\<rparr>"])
  apply (simp add: example_defs)
  done

theorem TraceRay_terminates_within_depth_witness:
  "Reflectance (Materials mirror_scene ! 0) = 1 \<and>
   (TraceRay_call ^^ 2) (mirror_scene, example_ray, 1, 2, count_lights)
     (mirror_scene,
      \<lparr>Ray.Position = \<lparr>X = 0, Y = 0, Z = - 3\<rparr>, Direction = \<lparr>X = 0, Y = 0, Z = 1\<rparr>\<rparr>,
      1, 0, count_lights) \<and>
   int 2 \<le> 2 \<and>
   TraceRay_dom (mirror_scene, example_ray, 1, 2, count_lights)"
proof -
  let ?last = "(mirror_scene,
      \<lparr>Ray.Position = \<lparr>X = 0, Y = 0, Z = - 3\<rparr>, Direction = \<lparr>X = 0, Y = 0, Z = 1\<rparr>\<rparr>,
      1 :: real, 0 :: int, count_lights)"
  have refl: "Reflectance (Materials mirror_scene ! 0) = 1"
    by (simp add: mirror_scene_def example_material_def)
  have chain: "(TraceRay_call ^^ 2) (mirror_scene, example_ray, 1, 2, count_lights) ?last"
    using mirror_first_call mirror_second_call
    by (auto simp add: numeral_2_eq_2)
  have nonneg: "(0::int) \<le> 2"
    by simp
  note main = TraceRay_terminates_within_depth [of mirror_scene example_ray 1 2 count_lights]
  from main have dom: "TraceRay_dom (mirror_scene, example_ray, 1, 2, count_lights)"
    by (rule conjunct1)
  from main nonneg chain have bound: "int 2 \<le> 2"
    by blast
  from refl chain bound dom show ?thesis
    by (intro conjI)
qed


text \<open>
  Claim C1. In \<^verbatim>\<open>TraceRay\<close>, for every hit point and every light of the scene, the
  light is in the list \<^verbatim>\<open>visibleLights\<close> if and only if the shadow ray from the hit
  point, with the direction light position minus hit point (not normalized), finds no
  intersection or its nearest intersection has \<open>t > 1\<close>: the loop computes the lights
  that pass this test, in the order of the scene. That list is the one the lighting model
  receives, at the hit point \<open>O + tD\<close> of the traced ray.
\<close>

theorem TraceRay_visible_lights:
  "TraceRay_visibleLights s intersection (Lights s) [] =
     filter (light_visible s intersection) (Lights s) \<and>
   (light \<in> set (TraceRay_visibleLights s intersection (Lights s) []) \<longleftrightarrow>
      light \<in> set (Lights s) \<and>
      (case FindIntersection s
              \<lparr>Ray.Position = intersection,
               Direction = Subtract (Light.Position light) intersection\<rparr> of
         (intersected, distance, _) \<Rightarrow> \<not> intersected \<or> distance > 1)) \<and>
   (FindIntersection s r = (True, t, currentObject) \<and>
    index (Objects s) currentObject = Inr object \<and>
    index (Materials s) (MaterialID object) = Inr material \<and>
    Normalize (Negative (Direction r)) = (viewer, True) \<longrightarrow>
      TraceRay s r lightStrength remainingDepth lighting =
        (let normal = SurfaceNormal object (ray_point r t);
             surfaceColor =
               lighting (filter (light_visible s (ray_point r t)) (Lights s)) (ambientLight s)
                 viewer (ray_point r t) normal material
         in if 0 < remainingDepth
            then
              (case TraceRay s (reflected_ray r (ray_point r t) normal)
                      (lightStrength * Reflectance material) (remainingDepth - 1) lighting of
                 Inl e \<Rightarrow> Inl e
               | Inr reflectedColor \<Rightarrow>
                   Inr \<lparr>Red = Red surfaceColor * lightStrength + Red reflectedColor,
                        Green = Green surfaceColor * lightStrength + Green reflectedColor,
                        Blue = Blue surfaceColor * lightStrength + Blue reflectedColor\<rparr>)
            else
              Inr \<lparr>Red = Red surfaceColor * lightStrength,
                   Green = Green surfaceColor * lightStrength,
                   Blue = Blue surfaceColor * lightStrength\<rparr>))"
proof (intro conjI impI)
  show "TraceRay_visibleLights s intersection (Lights s) [] =
     filter (light_visible s intersection) (Lights s)"
    by (simp add: TraceRay_visibleLights_filter)
next
  show "light \<in> set (TraceRay_visibleLights s intersection (Lights s) []) \<longleftrightarrow>
      light \<in> set (Lights s) \<and>
      (case FindIntersection s
              \<lparr>Ray.Position = intersection,
               Direction = Subtract (Light.Position light) intersection\<rparr> of
         (intersected, distance, _) \<Rightarrow> \<not> intersected \<or> distance > 1)"
    by (simp add: TraceRay_visibleLights_filter light_visible_def shadow_ray_def)
next
  assume h: "FindIntersection s r = (True, t, currentObject) \<and>
    index (Objects s) currentObject = Inr object \<and>
    index (Materials s) (MaterialID object) = Inr material \<and>
    Normalize (Negative (Direction r)) = (viewer, True)"
  show "TraceRay s r lightStrength remainingDepth lighting =
        (let normal = SurfaceNormal object (ray_point r t);
             surfaceColor =
               lighting (filter (light_visible s (ray_point r t)) (Lights s)) (ambientLight s)
                 viewer (ray_point r t) normal material
         in if 0 < remainingDepth
            then
              (case TraceRay s (reflected_ray r (ray_point r t) normal)
                      (lightStrength * Reflectance material) (remainingDepth - 1) lighting of
                 Inl e \<Rightarrow> Inl e
               | Inr reflectedColor \<Rightarrow>
                   Inr \<lparr>Red = Red surfaceColor * lightStrength + Red reflectedColor,
                        Green = Green surfaceColor * lightStrength + Green reflectedColor,
                        Blue = Blue surfaceColor * lightStrength + Blue reflectedColor\<rparr>)
            else
              Inr \<lparr>Red = Red surfaceColor * lightStrength,
                   Green = Green surfaceColor * lightStrength,
                   Blue = Blue surfaceColor * lightStrength\<rparr>)"
    by (subst TraceRay.simps)
       (simp add: h Let_def TraceRay_visibleLights_filter Color_zero_def ray_point_def
          reflected_ray_def split: sum.split)
qed


theorem TraceRay_visible_lights_witness:
  "FindIntersection example_scene (shadow_ray \<lparr>X = 0, Y = 0, Z = 3\<rparr> (example_light 1))
     = (False, 20000, - 1) \<and>
   FindIntersection example_scene (shadow_ray \<lparr>X = 0, Y = 0, Z = 3\<rparr> (example_light 10))
     = (True, 2 / 7, 0) \<and>
   FindIntersection example_scene (shadow_ray \<lparr>X = 0, Y = 0, Z = 3\<rparr> (example_light 4))
     = (True, 2, 0) \<and>
   TraceRay_visibleLights example_scene \<lparr>X = 0, Y = 0, Z = 3\<rparr> (Lights example_scene) []
     = [example_light 1, example_light 4] \<and>
   FindIntersection example_scene example_ray = (True, 3, 1) \<and>
   ray_point example_ray 3 = \<lparr>X = 0, Y = 0, Z = 3\<rparr> \<and>
   TraceRay example_scene example_ray 1 0 count_lights = Inr \<lparr>Red = 2, Green = 0, Blue = 0\<rparr>"
proof -
  let ?p = "\<lparr>X = 0, Y = 0, Z = 3\<rparr>"
  have l1: "FindIntersection example_scene (shadow_ray ?p (example_light 1))
      = (False, 20000, - 1)"
    by (simp add: example_defs)
  have l10: "FindIntersection example_scene (shadow_ray ?p (example_light 10))
      = (True, 2 / 7, 0)"
    by (simp add: example_defs)
  have l4: "FindIntersection example_scene (shadow_ray ?p (example_light 4)) = (True, 2, 0)"
    by (simp add: example_defs)
  have vis: "filter (light_visible example_scene ?p) (Lights example_scene)
      = [example_light 1, example_light 4]"
  proof -
    have v: "light_visible example_scene ?p (example_light 1)"
      "\<not> light_visible example_scene ?p (example_light 10)"
      "light_visible example_scene ?p (example_light 4)"
      by (simp_all add: light_visible_def l1 l10 l4)
    have "Lights example_scene = [example_light 1, example_light 10, example_light 4]"
      by (simp add: example_scene_def)
    with v show ?thesis
      by simp
  qed
  have hit: "FindIntersection example_scene example_ray = (True, 3, 1)"
    by (simp add: example_defs)
  have obj: "index (Objects example_scene) 1 = Inr (Plane_Object (example_plane 3 (- 1)))"
    by (simp add: index_def example_scene_def)
  have mat: "index (Materials example_scene) (MaterialID (Plane_Object (example_plane 3 (- 1))))
      = Inr example_material"
    by (simp add: index_def example_scene_def Plane_Object_def example_plane_def)
  have viewer: "Normalize (Negative (Direction example_ray)) = (\<lparr>X = 0, Y = 0, Z = - 1\<rparr>, True)"
    by (simp add: example_defs)
  have p: "ray_point example_ray 3 = ?p"
    by (simp add: example_defs)
  note main = TraceRay_visible_lights [where s = example_scene and intersection = ?p
      and r = example_ray and t = 3 and currentObject = 1
      and object = "Plane_Object (example_plane 3 (- 1))" and material = example_material
      and viewer = "\<lparr>X = 0, Y = 0, Z = - 1\<rparr>" and lightStrength = 1 and remainingDepth = 0
      and lighting = count_lights]
  from main have "TraceRay_visibleLights example_scene ?p (Lights example_scene) [] =
      filter (light_visible example_scene ?p) (Lights example_scene)"
    by (rule conjunct1)
  then have loop: "TraceRay_visibleLights example_scene ?p (Lights example_scene) []
      = [example_light 1, example_light 4]"
    by (simp only: vis)
  from main hit obj mat viewer
  have "TraceRay example_scene example_ray 1 0 count_lights =
      (let normal = SurfaceNormal (Plane_Object (example_plane 3 (- 1))) (ray_point example_ray 3);
           surfaceColor =
             count_lights (filter (light_visible example_scene (ray_point example_ray 3))
                 (Lights example_scene)) (ambientLight example_scene)
               \<lparr>X = 0, Y = 0, Z = - 1\<rparr> (ray_point example_ray 3) normal example_material
       in if (0::int) < 0 then undefined
          else
            Inr \<lparr>Red = Red surfaceColor * 1,
                 Green = Green surfaceColor * 1,
                 Blue = Blue surfaceColor * 1\<rparr>)"
    by simp
  then have trace: "TraceRay example_scene example_ray 1 0 count_lights
      = Inr \<lparr>Red = 2, Green = 0, Blue = 0\<rparr>"
    by (simp add: p vis count_lights_def Let_def)
  from l1 l10 l4 loop hit p trace show ?thesis
    by (intro conjI)
qed

section \<open>The range of FindIntersection and the shadow test\<close>

lemma FindIntersection_range_bounds:
  assumes "\<forall>obj \<in> set (Objects s). Intersect_contract (Intersect obj) r"
  shows "(fst (FindIntersection s r) \<longrightarrow> fst (snd (FindIntersection s r)) < 20000) \<and>
     (\<not> fst (FindIntersection s r) \<longrightarrow> FindIntersection s r = (False, 20000, - 1)) \<and>
     ((\<forall>obj \<in> set (Objects s). \<forall>maxRange u.
          Intersect obj r maxRange = (True, u) \<longrightarrow> 20000 \<le> u) \<longrightarrow>
        FindIntersection s r = (False, 20000, - 1))"
proof -
  have far: "FindIntersection s r = (False, 20000, - 1)"
    if h: "\<forall>obj \<in> set (Objects s). \<forall>maxRange u.
          Intersect obj r maxRange = (True, u) \<longrightarrow> 20000 \<le> u"
  proof -
    have "\<not> fst (Intersect obj r 20000)" if obj: "obj \<in> set (Objects s)" for obj
    proof
      assume "fst (Intersect obj r 20000)"
      then obtain u where u: "Intersect obj r 20000 = (True, u)"
        by (cases "Intersect obj r 20000") simp
      from assms obj have "Intersect_contract (Intersect obj) r"
        by simp
      from contract_hit_bounds [OF this u] have "u < 20000"
        by simp
      moreover from h obj u have "20000 \<le> u"
        by blast
      ultimately show False
        by simp
    qed
    then have "\<forall>obj \<in> set (Objects s). \<not> fst (Intersect obj r 20000)"
      by blast
    with assms show ?thesis
      by (rule FindIntersection_no_hit)
  qed
  show ?thesis
  proof (cases "\<exists>obj \<in> set (Objects s). fst (Intersect obj r 20000)")
    case False
    then have "\<forall>obj \<in> set (Objects s). \<not> fst (Intersect obj r 20000)"
      by blast
    from FindIntersection_no_hit [OF assms this] show ?thesis
      by simp
  next
    case True
    from FindIntersection_hit [OF assms True]
    obtain k u where k: "k < length (Objects s)"
      and res: "FindIntersection s r = (True, u, int k)"
      and at: "Intersect (Objects s ! k) r 20000 = (True, u)"
      by blast
    have "Intersect_contract (Intersect (Objects s ! k)) r"
      using assms k by simp
    from contract_hit_bounds [OF this at] have "u < 20000"
      by simp
    with res far show ?thesis
      by auto
  qed
qed

lemma TraceRay_shadowTest_eq:
  "TraceRay_shadowTest s p light =
     (if \<not> fst (FindIntersection s (shadow_ray p light)) then (True, [])
      else (1 < fst (snd (FindIntersection s (shadow_ray p light))),
            [fst (snd (FindIntersection s (shadow_ray p light)))]))"
  by (cases "FindIntersection s (shadow_ray p light)")
    (simp add: TraceRay_shadowTest_def shadow_ray_def)

lemma fst_TraceRay_shadowTest:
  "fst (TraceRay_shadowTest s p light) = light_visible s p light"
  by (cases "FindIntersection s (shadow_ray p light)")
    (simp add: TraceRay_shadowTest_eq light_visible_def)

lemma TraceRay_visibleLights_shadowTest:
  "TraceRay_visibleLights s p lights visibleLights =
     visibleLights @ filter (\<lambda>light. fst (TraceRay_shadowTest s p light)) lights"
  by (simp add: TraceRay_visibleLights_filter fst_TraceRay_shadowTest [abs_def])

text \<open>
  Claim C9, as stated, fails in its last clause: when a shadow ray hits nothing the
  shadow test does not compare the returned \<open>20000\<close> with \<open>1.0\<close>. From the point
  \<open>(0, 0, 3)\<close> of the example scene the shadow ray of the light at \<open>z = 1\<close> hits nothing,
  \<^verbatim>\<open>FindIntersection\<close> returns the distance \<open>20000\<close>, and the test appends the light in
  its \<^verbatim>\<open>!intersected\<close> branch, having compared nothing.
\<close>

theorem TraceRay_shadowTest_miss_counterexample:
  "FindIntersection example_scene (shadow_ray \<lparr>X = 0, Y = 0, Z = 3\<rparr> (example_light 1)) =
     (False, 20000, - 1) \<and>
   TraceRay_shadowTest example_scene \<lparr>X = 0, Y = 0, Z = 3\<rparr> (example_light 1) = (True, []) \<and>
   20000 \<notin> set (snd (TraceRay_shadowTest example_scene \<lparr>X = 0, Y = 0, Z = 3\<rparr> (example_light 1)))"
proof -
  have miss: "FindIntersection example_scene
      (shadow_ray \<lparr>X = 0, Y = 0, Z = 3\<rparr> (example_light 1)) = (False, 20000, - 1)"
    by (simp add: example_defs)
  have "FindIntersection example_scene
      \<lparr>Ray.Position = \<lparr>X = 0, Y = 0, Z = 3\<rparr>,
       Direction = Subtract (Light.Position (example_light 1)) \<lparr>X = 0, Y = 0, Z = 3\<rparr>\<rparr> =
      (False, 20000, - 1)"
    using miss by (simp only: shadow_ray_def)
  then have test: "TraceRay_shadowTest example_scene \<lparr>X = 0, Y = 0, Z = 3\<rparr> (example_light 1) =
      (True, [])"
    by (simp add: TraceRay_shadowTest_def)
  from miss test show ?thesis
    by simp
qed

text \<open>
  Claim C9, amended. \<^verbatim>\<open>FindIntersection\<close> starts its search with the range \<open>20000\<close>:
  when every \<^verbatim>\<open>Intersect\<close> keeps its contract, a reported intersection is nearer than
  \<open>20000\<close>; when every intersection that the objects can report on the ray lies at
  \<open>20000\<close> or beyond, no intersection is reported at all; and when nothing is hit the
  returned distance is exactly \<open>20000\<close>. The loop over the lights keeps the lights that
  pass the shadow test. When the ray is a shadow ray and hits nothing, the shadow test
  keeps the light in its \<^verbatim>\<open>!intersected\<close> branch and compares nothing with \<open>1.0\<close>; it
  compares the returned distance with \<open>1.0\<close> only for a reported intersection, so that
  \<open>20000\<close> is never a value it compares.
\<close>

theorem FindIntersection_range_20000:
  assumes "\<forall>obj \<in> set (Objects s). Intersect_contract (Intersect obj) r"
  shows "(fst (FindIntersection s r) \<longrightarrow> fst (snd (FindIntersection s r)) < 20000) \<and>
     (\<not> fst (FindIntersection s r) \<longrightarrow> FindIntersection s r = (False, 20000, - 1)) \<and>
     ((\<forall>obj \<in> set (Objects s). \<forall>maxRange u.
          Intersect obj r maxRange = (True, u) \<longrightarrow> 20000 \<le> u) \<longrightarrow>
        FindIntersection s r = (False, 20000, - 1)) \<and>
     TraceRay_visibleLights s p lights visibleLights =
        visibleLights @ filter (\<lambda>light. fst (TraceRay_shadowTest s p light)) lights \<and>
     (r = shadow_ray p light \<longrightarrow>
        (\<not> fst (FindIntersection s r) \<longrightarrow> TraceRay_shadowTest s p light = (True, [])) \<and>
        (fst (FindIntersection s r) \<longrightarrow>
           TraceRay_shadowTest s p light =
             (1 < fst (snd (FindIntersection s r)), [fst (snd (FindIntersection s r))])) \<and>
        20000 \<notin> set (snd (TraceRay_shadowTest s p light)))"
proof -
  note bounds = FindIntersection_range_bounds [OF assms]
  have shadow: "(\<not> fst (FindIntersection s r) \<longrightarrow> TraceRay_shadowTest s p light = (True, [])) \<and>
        (fst (FindIntersection s r) \<longrightarrow>
           TraceRay_shadowTest s p light =
             (1 < fst (snd (FindIntersection s r)), [fst (snd (FindIntersection s r))])) \<and>
        20000 \<notin> set (snd (TraceRay_shadowTest s p light))"
    if r: "r = shadow_ray p light"
  proof (cases "fst (FindIntersection s r)")
    case False
    then show ?thesis
      by (simp add: TraceRay_shadowTest_eq r)
  next
    case True
    with bounds have "fst (snd (FindIntersection s r)) < 20000"
      by blast
    with True show ?thesis
      by (simp add: TraceRay_shadowTest_eq r)
  qed
  from bounds shadow TraceRay_visibleLights_shadowTest [of s p lights visibleLights]
  show ?thesis
    by blast
qed

theorem FindIntersection_range_20000_witness:
  "example_ray = shadow_ray \<lparr>X = 0, Y = 0, Z = 0\<rparr> (example_light 1) \<and>
   Intersect (Plane_Object (example_plane 30000 (- 1))) example_ray 40000 = (True, 30000) \<and>
   FindIntersection (example_scene\<lparr>Objects := [Plane_Object (example_plane 30000 (- 1))]\<rparr>) example_ray
     = (False, 20000, - 1) \<and>
   TraceRay_shadowTest (example_scene\<lparr>Objects := [Plane_Object (example_plane 30000 (- 1))]\<rparr>)
     \<lparr>X = 0, Y = 0, Z = 0\<rparr> (example_light 1) = (True, []) \<and>
   FindIntersection example_scene example_ray = (True, 3, 1) \<and>
   (3 :: real) < 20000 \<and>
   TraceRay_shadowTest example_scene \<lparr>X = 0, Y = 0, Z = 0\<rparr> (example_light 1) = (True, [3]) \<and>
   20000 \<notin> set (snd (TraceRay_shadowTest example_scene \<lparr>X = 0, Y = 0, Z = 0\<rparr> (example_light 1))) \<and>
   TraceRay_visibleLights example_scene \<lparr>X = 0, Y = 0, Z = 0\<rparr> [example_light 1] [] =
     [example_light 1]"
proof -
  let ?far = "example_scene\<lparr>Objects := [Plane_Object (example_plane 30000 (- 1))]\<rparr>"
  let ?o = "\<lparr>X = 0, Y = 0, Z = 0\<rparr>"
  have ray: "example_ray = shadow_ray ?o (example_light 1)"
    by (simp add: example_ray_def shadow_ray_def example_light_def Subtract_def)
  have c: "\<forall>obj \<in> set (Objects example_scene). Intersect_contract (Intersect obj) example_ray"
    by (simp add: example_scene_def Plane_Object_def Plane_Intersect_contract)
  have c': "\<forall>obj \<in> set (Objects ?far). Intersect_contract (Intersect obj) example_ray"
    by (simp add: Plane_Object_def Plane_Intersect_contract)
  have hit: "Intersect (Plane_Object (example_plane 30000 (- 1))) example_ray 40000 = (True, 30000)"
    by (simp add: example_ray_def example_plane_def
        Plane_Object_def Plane_Intersect_def Dot_def Subtract_def)
  have beyond: "\<forall>obj \<in> set (Objects ?far). \<forall>maxRange u.
          Intersect obj example_ray maxRange = (True, u) \<longrightarrow> 20000 \<le> u"
    by (simp add: example_ray_def example_plane_def
        Plane_Object_def Plane_Intersect_def Dot_def Subtract_def)
  have res: "FindIntersection example_scene example_ray = (True, 3, 1)"
    by (simp add: FindIntersection_def example_scene_def example_ray_def example_plane_def
        Plane_Object_def Plane_Intersect_def Dot_def Subtract_def)
  note far = FindIntersection_range_20000 [OF c', where p = ?o and light = "example_light 1"
      and lights = "[example_light 1]" and visibleLights = "[]"]
  note near = FindIntersection_range_20000 [OF c, where p = ?o and light = "example_light 1"
      and lights = "[example_light 1]" and visibleLights = "[]"]
  from far beyond have miss: "FindIntersection ?far example_ray = (False, 20000, - 1)"
    by blast
  then have nf: "\<not> fst (FindIntersection ?far example_ray)"
    by simp
  from far ray nf have t1: "TraceRay_shadowTest ?far ?o (example_light 1) = (True, [])"
    by blast
  from res have f: "fst (FindIntersection example_scene example_ray)"
    by simp
  from near f have lt: "fst (snd (FindIntersection example_scene example_ray)) < 20000"
    by blast
  from near ray f have "TraceRay_shadowTest example_scene ?o (example_light 1) =
      (1 < fst (snd (FindIntersection example_scene example_ray)),
       [fst (snd (FindIntersection example_scene example_ray))])"
    by blast
  then have t2: "TraceRay_shadowTest example_scene ?o (example_light 1) = (True, [3])"
    by (simp add: res)
  from near ray have never: "20000 \<notin> set (snd (TraceRay_shadowTest example_scene ?o (example_light 1)))"
    by blast
  from near have "TraceRay_visibleLights example_scene ?o [example_light 1] [] =
      [] @ filter (\<lambda>light. fst (TraceRay_shadowTest example_scene ?o light)) [example_light 1]"
    by blast
  then have loop: "TraceRay_visibleLights example_scene ?o [example_light 1] [] = [example_light 1]"
    by (simp add: t2)
  from lt res have lt3: "(3 :: real) < 20000"
    by simp
  from ray hit miss t1 res lt3 t2 never loop show ?thesis
    by (intro conjI)
qed

section \<open>The Phong model\<close>

lemma Dot_reflection:
  "Dot (Subtract (Scale n k) l) (Subtract (Scale n k) l) =
     k * k * Dot n n - 2 * k * Dot l n + Dot l l"
  by (simp add: Dot_def Subtract_def Scale_def algebra_simps)

lemma unit_reflection:
  assumes "Dot n n = 1" and "Dot l l = 1"
  shows "Dot (Subtract (Scale n (2 * Dot l n)) l) (Subtract (Scale n (2 * Dot l n)) l) = 1"
  by (simp add: Dot_reflection assms)

lemma Normalize_unit:
  assumes "Dot v v = 1"
  shows "Normalize v = (v, True)"
proof -
  have "Magnitude v = 1"
    by (simp add: Magnitude_def assms)
  then show ?thesis
    by (simp add: Normalize_def Scale_def)
qed

lemma Normalize_ok_unit:
  assumes "Normalize v = (u, True)"
  shows "Dot u u = 1"
proof -
  from assms have nz: "Magnitude v \<noteq> 0" and u: "u = Scale v (1 / Magnitude v)"
    by (auto simp add: Normalize_def Let_def split: if_splits)
  from Magnitude_Scale_inverse [OF nz] have "Magnitude u = 1"
    by (simp add: u)
  then have "sqrt (Dot u u) = 1"
    by (simp add: Magnitude_def)
  then show ?thesis
    by simp
qed

lemma PhongReflectance_loop_sum:
  assumes "Dot normal normal = 1"
  shows "PhongReflectance_loop lights viewer position normal material color =
     \<lparr>Red = Red color +
        (\<Sum>light \<leftarrow> filter (\<lambda>light. front_facing position normal light
              \<and> normalizable position light) lights.
           phong_term Red viewer position normal material light),
      Green = Green color +
        (\<Sum>light \<leftarrow> filter (\<lambda>light. front_facing position normal light
              \<and> normalizable position light) lights.
           phong_term Green viewer position normal material light),
      Blue = Blue color +
        (\<Sum>light \<leftarrow> filter (\<lambda>light. front_facing position normal light
              \<and> normalizable position light) lights.
           phong_term Blue viewer position normal material light)\<rparr>"
proof (induction lights arbitrary: color)
  case Nil
  show ?case by simp
next
  case (Cons light lights)
  let ?dist = "Subtract (Light.Position light) position"
  show ?case
  proof (cases "Dot normal ?dist \<le> 0")
    case True
    then have "\<not> front_facing position normal light"
      by (simp add: front_facing_def)
    with True show ?thesis
      by (simp add: Cons.IH)
  next
    case False
    then have ff: "front_facing position normal light"
      by (simp add: front_facing_def)
    obtain lightVec ok where n: "Normalize ?dist = (lightVec, ok)"
      by (cases "Normalize ?dist")
    show ?thesis
    proof (cases ok)
      case False
      with n have "\<not> normalizable position light"
        by (simp add: normalizable_def)
      with \<open>\<not> Dot normal ?dist \<le> 0\<close> n False show ?thesis
        by (simp add: Cons.IH)
    next
      case True
      with n have nok: "normalizable position light"
        and lv: "light_vector position light = lightVec"
        by (simp_all add: normalizable_def light_vector_def)
      from n True have unit: "Dot lightVec lightVec = 1"
        using Normalize_ok_unit by simp
      let ?refl = "Subtract (Scale normal (2 * Dot lightVec normal)) lightVec"
      have nr: "Normalize ?refl = (?refl, True)"
        using unit_reflection [OF assms unit] by (rule Normalize_unit)
      have rl: "reflected_light position normal light = ?refl"
        by (simp add: reflected_light_def lv nr)
      have pt: "phong_term channel viewer position normal material light =
          max 0 (Dot lightVec normal) * channel (Light.Diffuse light)
            * channel (Material.Diffuse material)
          + (if max 0 (Dot ?refl viewer) \<le> 0 then 0
             else Pow (max 0 (Dot ?refl viewer)) (Alpha material))
            * channel (Light.Specular light) * channel (Material.Specular material)"
        for channel
        by (simp add: phong_term_def diffuse_coefficient_def specular_coefficient_def
            lv rl Pow_def)
      from \<open>\<not> Dot normal ?dist \<le> 0\<close> n True nr ff nok show ?thesis
        by (simp add: Cons.IH Let_def pt add.assoc)
    qed
  qed
qed


text \<open>
  Claim C5. For every light list, ambient color, viewer direction, position, unit normal
  and material, each channel of \<^verbatim>\<open>PhongReflectance\<close> is the sum, over the front-facing
  and normalizable lights, of the diffuse term \<open>max(0, L\<cdot>N) * lightDiffuse *
  materialDiffuse\<close> plus the specular term \<open>specCoef * lightSpecular * materialSpecular\<close>,
  with \<open>specCoef = max(0, R\<cdot>V)\<^sup>\<alpha>\<close> forced to zero when \<open>R\<cdot>V \<le> 0\<close>, plus the
  ambient term \<open>ambientLight * materialAmbient\<close>, added once whatever the lights are; for
  the empty light list the result is the ambient term.
\<close>

theorem PhongReflectance_sum:
  assumes "Magnitude normal = 1"
  shows "PhongReflectance lights ambient viewer position normal material =
     \<lparr>Red =
        (\<Sum>light \<leftarrow> filter (\<lambda>light. front_facing position normal light
              \<and> normalizable position light) lights.
           phong_term Red viewer position normal material light)
        + Red ambient * Red (Material.Ambient material),
      Green =
        (\<Sum>light \<leftarrow> filter (\<lambda>light. front_facing position normal light
              \<and> normalizable position light) lights.
           phong_term Green viewer position normal material light)
        + Green ambient * Green (Material.Ambient material),
      Blue =
        (\<Sum>light \<leftarrow> filter (\<lambda>light. front_facing position normal light
              \<and> normalizable position light) lights.
           phong_term Blue viewer position normal material light)
        + Blue ambient * Blue (Material.Ambient material)\<rparr> \<and>
   PhongReflectance [] ambient viewer position normal material =
     \<lparr>Red = Red ambient * Red (Material.Ambient material),
      Green = Green ambient * Green (Material.Ambient material),
      Blue = Blue ambient * Blue (Material.Ambient material)\<rparr>"
proof -
  from assms have "sqrt (Dot normal normal) = 1"
    by (simp add: Magnitude_def)
  then have unit: "Dot normal normal = 1"
    by simp
  show ?thesis
    by (simp add: PhongReflectance_def Let_def PhongReflectance_loop_sum [OF unit]
        Color_zero_def)
qed

theorem PhongReflectance_sum_witness:
  "Magnitude \<lparr>X = 0, Y = 0, Z = 1\<rparr> = 1 \<and>
   front_facing \<lparr>X = 0, Y = 0, Z = 0\<rparr> \<lparr>X = 0, Y = 0, Z = 1\<rparr> (example_light 2) \<and>
   normalizable \<lparr>X = 0, Y = 0, Z = 0\<rparr> (example_light 2) \<and>
   \<not> front_facing \<lparr>X = 0, Y = 0, Z = 0\<rparr> \<lparr>X = 0, Y = 0, Z = 1\<rparr> (example_light (- 2)) \<and>
   phong_term Red \<lparr>X = 0, Y = 0, Z = 1\<rparr> \<lparr>X = 0, Y = 0, Z = 0\<rparr> \<lparr>X = 0, Y = 0, Z = 1\<rparr>
     example_material (example_light 2) = 2 \<and>
   PhongReflectance [example_light 2, example_light (- 2)] white \<lparr>X = 0, Y = 0, Z = 1\<rparr>
     \<lparr>X = 0, Y = 0, Z = 0\<rparr> \<lparr>X = 0, Y = 0, Z = 1\<rparr> example_material
     = \<lparr>Red = 3, Green = 3, Blue = 3\<rparr> \<and>
   PhongReflectance [] white \<lparr>X = 0, Y = 0, Z = 1\<rparr>
     \<lparr>X = 0, Y = 0, Z = 0\<rparr> \<lparr>X = 0, Y = 0, Z = 1\<rparr> example_material
     = \<lparr>Red = 1, Green = 1, Blue = 1\<rparr>"
proof -
  let ?o = "\<lparr>X = 0, Y = 0, Z = 0\<rparr>" and ?n = "\<lparr>X = 0, Y = 0, Z = 1\<rparr>"
  have unit: "Magnitude ?n = 1"
    by (simp add: Magnitude_def Dot_def)
  have ff: "front_facing ?o ?n (example_light 2)"
    "\<not> front_facing ?o ?n (example_light (- 2))"
    by (simp_all add: front_facing_def example_light_def Dot_def Subtract_def)
  have nn: "normalizable ?o (example_light 2)"
    by (simp add: normalizable_def example_light_def Normalize_def Magnitude_def Dot_def
        Subtract_def)
  have lv: "light_vector ?o (example_light 2) = ?n"
    by (simp add: light_vector_def example_light_def Normalize_def Magnitude_def Dot_def
        Subtract_def Scale_def)
  have rl: "reflected_light ?o ?n (example_light 2) = ?n"
    by (simp add: reflected_light_def lv Normalize_def Magnitude_def Dot_def
        Subtract_def Scale_def)
  have pt: "phong_term channel ?n ?o ?n example_material (example_light 2) =
      channel white * channel white + channel white * channel white" for channel
  proof -
    have dc: "diffuse_coefficient ?o ?n (example_light 2) = 1"
      by (simp add: diffuse_coefficient_def lv Dot_def)
    have sc: "specular_coefficient ?n ?o ?n 2 (example_light 2) = 1"
      by (simp add: specular_coefficient_def rl Dot_def)
    have alpha: "Alpha example_material = 2"
      by (simp add: example_material_def)
    have "phong_term channel ?n ?o ?n example_material (example_light 2) =
        channel (Light.Diffuse (example_light 2)) * channel (Material.Diffuse example_material)
        + channel (Light.Specular (example_light 2))
          * channel (Material.Specular example_material)"
      by (simp add: phong_term_def alpha dc sc)
    then show ?thesis
      by (simp add: example_light_def example_material_def)
  qed
  have pt_red: "phong_term Red ?n ?o ?n example_material (example_light 2) = 2"
    by (simp add: pt white_def)
  have amb: "Material.Ambient example_material = white"
    by (simp add: example_material_def)
  have w: "Red white = 1" "Green white = 1" "Blue white = 1"
    by (simp_all add: white_def)
  from PhongReflectance_sum [OF unit, of "[example_light 2, example_light (- 2)]" white ?n ?o
      example_material]
  have both: "PhongReflectance [example_light 2, example_light (- 2)] white ?n ?o ?n
      example_material = \<lparr>Red = 3, Green = 3, Blue = 3\<rparr>"
    and none: "PhongReflectance [] white ?n ?o ?n example_material
      = \<lparr>Red = 1, Green = 1, Blue = 1\<rparr>"
    by (simp_all add: ff nn pt amb w)
  from unit ff nn pt_red both none show ?thesis
    by (intro conjI)
qed

section \<open>Initialization\<close>

lemma Initialize_validate_None_iff:
  "Initialize_validate s objects i = None \<longleftrightarrow>
     (\<forall>object \<in> set objects.
        \<not> (MaterialID object < 0 \<or> int (length (Materials s)) \<le> MaterialID object))"
  by (induction objects arbitrary: i) (auto simp add: Let_def)

lemma Initialize_validate_Some:
  assumes "Initialize_validate s objects i = Some (InvalidMaterialId k)"
  shows "\<exists>n < length objects. k = i + int n \<and>
     (MaterialID (objects ! n) < 0 \<or> int (length (Materials s)) \<le> MaterialID (objects ! n)) \<and>
     (\<forall>j < n. \<not> (MaterialID (objects ! j) < 0
                 \<or> int (length (Materials s)) \<le> MaterialID (objects ! j)))"
  using assms
proof (induction objects arbitrary: i)
  case Nil
  then show ?case by simp
next
  case (Cons object objects)
  show ?case
  proof (cases "MaterialID object < 0 \<or> int (length (Materials s)) \<le> MaterialID object")
    case True
    with Cons.prems have "k = i"
      by (auto simp add: Let_def)
    with True show ?thesis
      by (intro exI [of _ 0]) simp
  next
    case False
    with Cons.prems have "Initialize_validate s objects (i + 1) = Some (InvalidMaterialId k)"
      by (auto simp add: Let_def)
    from Cons.IH [OF this] obtain n where n: "n < length objects" "k = i + 1 + int n"
      "MaterialID (objects ! n) < 0 \<or> int (length (Materials s)) \<le> MaterialID (objects ! n)"
      "\<forall>j < n. \<not> (MaterialID (objects ! j) < 0
                 \<or> int (length (Materials s)) \<le> MaterialID (objects ! j))"
      by blast
    have "\<forall>j < Suc n. \<not> (MaterialID ((object # objects) ! j) < 0
                 \<or> int (length (Materials s)) \<le> MaterialID ((object # objects) ! j))"
    proof (intro allI impI)
      fix j
      assume "j < Suc n"
      with False n(4) show "\<not> (MaterialID ((object # objects) ! j) < 0
                 \<or> int (length (Materials s)) \<le> MaterialID ((object # objects) ! j))"
        by (cases j) simp_all
    qed
    with n(1,2,3) show ?thesis
      by (intro exI [of _ "Suc n"]) simp
  qed
qed

lemma FindIntersection_Materials:
  "FindIntersection (s\<lparr>Materials := materials\<rparr>) r = FindIntersection s r"
  by (simp add: FindIntersection_def)

lemma index_Inl_iff: "index xs i = Inl e \<longleftrightarrow> (i < 0 \<or> int (length xs) \<le> i)"
  by (cases e) (auto simp add: index_def)

text \<open>
  Claim C7. \<^verbatim>\<open>Initialize\<close> returns an error if and only if the material index of some
  object is negative or not below the number of materials; the error names the first such
  object. On an error the scene is as it was, so the derived ambient light is unchanged.
  The check is made here only: \<^verbatim>\<open>FindIntersection\<close> does not look at the materials, and
  \<^verbatim>\<open>TraceRay\<close> indexes \<^verbatim>\<open>s.Materials\<close> unchecked, so an unresolved index of the hit
  object is the panic of the index expression.
\<close>

theorem Initialize_error_iff_invalid_material:
  "(fst (Initialize nonfinite s) \<noteq> None \<longleftrightarrow>
      (\<exists>object \<in> set (Objects s).
         MaterialID object < 0 \<or> int (length (Materials s)) \<le> MaterialID object)) \<and>
   (fst (Initialize nonfinite s) \<noteq> None \<longrightarrow>
      snd (Initialize nonfinite s) = s \<and>
      ambientLight (snd (Initialize nonfinite s)) = ambientLight s) \<and>
   (\<forall>k. fst (Initialize nonfinite s) = Some (InvalidMaterialId k) \<longrightarrow>
      0 \<le> k \<and> k < int (length (Objects s)) \<and>
      (MaterialID (Objects s ! nat k) < 0
         \<or> int (length (Materials s)) \<le> MaterialID (Objects s ! nat k)) \<and>
      (\<forall>j < nat k. \<not> (MaterialID (Objects s ! j) < 0
         \<or> int (length (Materials s)) \<le> MaterialID (Objects s ! j)))) \<and>
   FindIntersection (s\<lparr>Materials := materials\<rparr>) r = FindIntersection s r \<and>
   (FindIntersection s r = (True, t, currentObject) \<and>
    index (Objects s) currentObject = Inr object \<and>
    (MaterialID object < 0 \<or> int (length (Materials s)) \<le> MaterialID object) \<longrightarrow>
      TraceRay s r lightStrength remainingDepth lighting = Inl IndexOutOfRange)"
proof -
  have a: "fst (Initialize nonfinite s) \<noteq> None \<longleftrightarrow>
      (\<exists>object \<in> set (Objects s).
         MaterialID object < 0 \<or> int (length (Materials s)) \<le> MaterialID object)"
    using Initialize_validate_None_iff [of s "Objects s" 0]
    by (auto simp add: Initialize_def Let_def split: option.splits)
  have b: "fst (Initialize nonfinite s) \<noteq> None \<longrightarrow>
      snd (Initialize nonfinite s) = s \<and>
      ambientLight (snd (Initialize nonfinite s)) = ambientLight s"
    by (auto simp add: Initialize_def Let_def split: option.splits)
  have c: "0 \<le> k \<and> k < int (length (Objects s)) \<and>
      (MaterialID (Objects s ! nat k) < 0
         \<or> int (length (Materials s)) \<le> MaterialID (Objects s ! nat k)) \<and>
      (\<forall>j < nat k. \<not> (MaterialID (Objects s ! j) < 0
         \<or> int (length (Materials s)) \<le> MaterialID (Objects s ! j)))"
    if "fst (Initialize nonfinite s) = Some (InvalidMaterialId k)" for k
  proof -
    from that have "Initialize_validate s (Objects s) 0 = Some (InvalidMaterialId k)"
      by (auto simp add: Initialize_def Let_def split: option.splits)
    from Initialize_validate_Some [OF this]
    obtain n where n: "n < length (Objects s)" "k = int n"
      "MaterialID (Objects s ! n) < 0 \<or> int (length (Materials s)) \<le> MaterialID (Objects s ! n)"
      "\<forall>j < n. \<not> (MaterialID (Objects s ! j) < 0
                   \<or> int (length (Materials s)) \<le> MaterialID (Objects s ! j))"
      by auto
    then show ?thesis
      by simp
  qed
  have d: "FindIntersection (s\<lparr>Materials := materials\<rparr>) r = FindIntersection s r"
    by (rule FindIntersection_Materials)
  have e: "TraceRay s r lightStrength remainingDepth lighting = Inl IndexOutOfRange"
    if h: "FindIntersection s r = (True, t, currentObject) \<and>
      index (Objects s) currentObject = Inr object \<and>
      (MaterialID object < 0 \<or> int (length (Materials s)) \<le> MaterialID object)"
  proof -
    from h have "index (Materials s) (MaterialID object) = Inl IndexOutOfRange"
      by (simp add: index_Inl_iff)
    with h show ?thesis
      by (subst TraceRay.simps) (simp add: Let_def)
  qed
  from a b c d e show ?thesis
    by blast
qed

theorem Initialize_error_iff_invalid_material_witness:
  "Initialize (\<lambda>x. 0) (example_scene\<lparr>Materials := []\<rparr>)
     = (Some (InvalidMaterialId 0), example_scene\<lparr>Materials := []\<rparr>) \<and>
   MaterialID (Objects (example_scene\<lparr>Materials := []\<rparr>) ! nat 0) = 0 \<and>
   int (length (Materials (example_scene\<lparr>Materials := []\<rparr>))) = 0 \<and>
   ambientLight (snd (Initialize (\<lambda>x. 0) (example_scene\<lparr>Materials := []\<rparr>))) = white \<and>
   FindIntersection (example_scene\<lparr>Materials := []\<rparr>) example_ray = (True, 3, 1) \<and>
   TraceRay (example_scene\<lparr>Materials := []\<rparr>) example_ray 1 0 count_lights
     = Inl IndexOutOfRange \<and>
   fst (Initialize (\<lambda>x. 0) example_scene) = None"
proof -
  let ?bad = "example_scene\<lparr>Materials := []\<rparr>"
  have init: "Initialize (\<lambda>x. 0) ?bad = (Some (InvalidMaterialId 0), ?bad)"
    by (simp add: Initialize_def example_scene_def Plane_Object_def example_plane_def)
  have id: "MaterialID (Objects ?bad ! nat 0) = 0"
    by (simp add: example_scene_def Plane_Object_def example_plane_def)
  have len: "int (length (Materials ?bad)) = 0"
    by simp
  have hit: "FindIntersection ?bad example_ray = (True, 3, 1)"
    by (simp add: example_defs)
  have obj: "index (Objects ?bad) 1 = Inr (Plane_Object (example_plane 3 (- 1)))"
    by (simp add: index_def example_scene_def)
  have inv: "MaterialID (Plane_Object (example_plane 3 (- 1))) < 0
      \<or> int (length (Materials ?bad)) \<le> MaterialID (Plane_Object (example_plane 3 (- 1)))"
    by (simp add: Plane_Object_def example_plane_def)
  have valid: "\<not> (\<exists>object \<in> set (Objects example_scene).
      MaterialID object < 0 \<or> int (length (Materials example_scene)) \<le> MaterialID object)"
    by (simp add: example_scene_def Plane_Object_def example_plane_def)
  note bad = Initialize_error_iff_invalid_material [where s = ?bad and nonfinite = "\<lambda>x. 0"
      and r = example_ray and t = 3 and currentObject = 1
      and object = "Plane_Object (example_plane 3 (- 1))" and lightStrength = 1
      and remainingDepth = 0 and lighting = count_lights]
  from init have "fst (Initialize (\<lambda>x. 0) ?bad) \<noteq> None"
    by simp
  with bad have "ambientLight (snd (Initialize (\<lambda>x. 0) ?bad)) = ambientLight ?bad"
    by blast
  then have amb: "ambientLight (snd (Initialize (\<lambda>x. 0) ?bad)) = white"
    by (simp add: example_scene_def)
  from bad hit obj inv
  have panic: "TraceRay ?bad example_ray 1 0 count_lights = Inl IndexOutOfRange"
    by blast
  from Initialize_error_iff_invalid_material [where s = example_scene and nonfinite = "\<lambda>x. 0"]
    valid
  have ok: "fst (Initialize (\<lambda>x. 0) example_scene) = None"
    by blast
  from init id len amb hit panic ok show ?thesis
    by (intro conjI)
qed


text \<open>
  Claim C10. \<^verbatim>\<open>Initialize\<close> does not guard the mean of the ambient colors against an
  empty light list: for every scene without lights whose objects all have valid material
  indices it returns no error, and each channel of the derived ambient color is the
  \<^verbatim>\<open>float64\<close> quotient of zero by zero (the value that the division gives there, a NaN
  in IEEE 754), not a zero that the code would set.
\<close>

theorem Initialize_no_lights:
  "Lights s = [] \<and>
   (\<forall>object \<in> set (Objects s).
      0 \<le> MaterialID object \<and> MaterialID object < int (length (Materials s))) \<longrightarrow>
     Initialize nonfinite s =
       (None,
        s\<lparr>ambientLight :=
            \<lparr>Red = float64_div nonfinite 0 0,
             Green = float64_div nonfinite 0 0,
             Blue = float64_div nonfinite 0 0\<rparr>\<rparr>) \<and>
     float64_div nonfinite 0 0 = nonfinite 0"
proof
  assume h: "Lights s = [] \<and>
   (\<forall>object \<in> set (Objects s).
      0 \<le> MaterialID object \<and> MaterialID object < int (length (Materials s)))"
  then have "Initialize_validate s (Objects s) 0 = None"
    by (auto simp add: Initialize_validate_None_iff)
  with h show "Initialize nonfinite s =
       (None,
        s\<lparr>ambientLight :=
            \<lparr>Red = float64_div nonfinite 0 0,
             Green = float64_div nonfinite 0 0,
             Blue = float64_div nonfinite 0 0\<rparr>\<rparr>) \<and>
     float64_div nonfinite 0 0 = nonfinite 0"
    by (simp add: Initialize_def Let_def Color_zero_def float64_div_def)
qed

theorem Initialize_no_lights_witness:
  "Lights mirror_scene = [] \<and>
   Initialize (\<lambda>x. 1) mirror_scene =
     (None, mirror_scene\<lparr>ambientLight := \<lparr>Red = 1, Green = 1, Blue = 1\<rparr>\<rparr>) \<and>
   float64_div (\<lambda>x. 1) 0 0 = 1"
proof -
  have l: "Lights mirror_scene = []"
    by (simp add: mirror_scene_def)
  have v: "\<forall>object \<in> set (Objects mirror_scene).
      0 \<le> MaterialID object \<and> MaterialID object < int (length (Materials mirror_scene))"
    by (simp add: mirror_scene_def Plane_Object_def example_plane_def)
  from Initialize_no_lights [of mirror_scene "\<lambda>x. 1"] l v
  have "Initialize (\<lambda>x. 1) mirror_scene =
       (None,
        mirror_scene\<lparr>ambientLight :=
            \<lparr>Red = float64_div (\<lambda>x. 1) 0 0,
             Green = float64_div (\<lambda>x. 1) 0 0,
             Blue = float64_div (\<lambda>x. 1) 0 0\<rparr>\<rparr>)"
    and d: "float64_div (\<lambda>x. 1) 0 0 = 1"
    by blast+
  then have "Initialize (\<lambda>x. 1) mirror_scene =
     (None, mirror_scene\<lparr>ambientLight := \<lparr>Red = 1, Green = 1, Blue = 1\<rparr>\<rparr>)"
    by simp
  with l d show ?thesis
    by (intro conjI)
qed

section \<open>Rendering a pixel\<close>

lemma AverageColors_loop_sum:
  "AverageColors_loop colors average =
     \<lparr>Red = Red average + (\<Sum>c \<leftarrow> colors. Red c),
      Green = Green average + (\<Sum>c \<leftarrow> colors. Green c),
      Blue = Blue average + (\<Sum>c \<leftarrow> colors. Blue c)\<rparr>"
  by (induction colors arbitrary: average) (simp_all add: add.assoc)

lemma renderRays_loop_map:
  "renderRays_loop trace rays maxRayReflections colors =
     colors @ map (\<lambda>ray. trace ray 1 maxRayReflections) rays"
  by (induction rays arbitrary: colors) simp_all

lemma length_upto_from_0: "length [0..n - 1] = nat n"
  by simp

lemma length_Render_rays:
  "length (Render_rays generateLightRay scope n w h px py) = nat n * nat n"
  by (simp add: Render_rays_def Let_def length_concat comp_def sum_list_triv)

lemma uint8_of_float64_floor:
  assumes "0 \<le> x" and "x \<le> 255"
  shows "unat (uint8_of_float64 unrepresentable x) = nat \<lfloor>x\<rfloor>"
proof -
  have "0 \<le> \<lfloor>x\<rfloor>" and "\<lfloor>x\<rfloor> \<le> 255"
    using assms by (simp_all add: floor_le_iff)
  then have "unat (word_of_int \<lfloor>x\<rfloor> :: 8 word) = nat \<lfloor>x\<rfloor>"
    by (simp add: unat_eq_nat_uint uint_word_of_int)
  with assms show ?thesis
    by (simp add: uint8_of_float64_def)
qed


lemma AverageColors_mean:
  assumes "rays \<noteq> []"
  shows "AverageColors nonfinite (map (\<lambda>ray. trace ray 1 maxRayReflections) rays) =
     \<lparr>Red = mean_channel Red trace rays maxRayReflections,
      Green = mean_channel Green trace rays maxRayReflections,
      Blue = mean_channel Blue trace rays maxRayReflections\<rparr>"
  using assms
  by (simp add: AverageColors_def Let_def AverageColors_loop_sum Color_zero_def
      float64_div_def mean_channel_def comp_def)

text \<open>
  Claim C8. For every pixel of the image, with the anti-aliasing factor \<open>N \<ge> 1\<close>, the
  pixel has \<open>N\<^sup>2\<close> rays, and the color written to the output buffer has, in each channel,
  the arithmetic mean of the traced colors of all these rays, scaled to the display range
  and clamped to the display maximum 255 before it is converted and written: no channel
  exceeds the maximum and no sample is left out of the mean. For a mean that is not
  negative the written byte is the integer part of the clamped value.
\<close>

theorem renderRays_mean_clamped:
  assumes "1 \<le> antiAliasingFactor"
    and "0 \<le> pixelX \<and> pixelX < Width output"
    and "0 \<le> pixelY \<and> pixelY < Height output"
    and "rays = Render_rays generateLightRay scope antiAliasingFactor
                  (Width output) (Height output) pixelX pixelY"
    and "pixel = Pix (renderRays nonfinite unrepresentable trace output rays pixelX pixelY
                  maxRayReflections) (pixelX, pixelY)"
  shows "length rays = nat (antiAliasingFactor * antiAliasingFactor) \<and>
     pixel =
       \<lparr>R = uint8_of_float64 unrepresentable
              (min (mean_channel Red trace rays maxRayReflections * 255) 255),
        G = uint8_of_float64 unrepresentable
              (min (mean_channel Green trace rays maxRayReflections * 255) 255),
        B = uint8_of_float64 unrepresentable
              (min (mean_channel Blue trace rays maxRayReflections * 255) 255),
        A = 255\<rparr> \<and>
     min (mean_channel Red trace rays maxRayReflections * 255) 255 \<le> 255 \<and>
     min (mean_channel Green trace rays maxRayReflections * 255) 255 \<le> 255 \<and>
     min (mean_channel Blue trace rays maxRayReflections * 255) 255 \<le> 255 \<and>
     (0 \<le> mean_channel Red trace rays maxRayReflections \<longrightarrow>
        unat (R pixel) = nat \<lfloor>min (mean_channel Red trace rays maxRayReflections * 255) 255\<rfloor>) \<and>
     (0 \<le> mean_channel Green trace rays maxRayReflections \<longrightarrow>
        unat (G pixel) = nat \<lfloor>min (mean_channel Green trace rays maxRayReflections * 255) 255\<rfloor>) \<and>
     (0 \<le> mean_channel Blue trace rays maxRayReflections \<longrightarrow>
        unat (B pixel) = nat \<lfloor>min (mean_channel Blue trace rays maxRayReflections * 255) 255\<rfloor>)"
proof -
  have len: "length rays = nat antiAliasingFactor * nat antiAliasingFactor"
    by (simp add: assms(4) length_Render_rays)
  then have len': "length rays = nat (antiAliasingFactor * antiAliasingFactor)"
    using assms(1) by (simp add: nat_mult_distrib)
  from len assms(1) have "rays \<noteq> []"
    by auto
  from AverageColors_mean [OF this]
  have avg: "AverageColors nonfinite (renderRays_loop trace rays maxRayReflections []) =
       \<lparr>Red = mean_channel Red trace rays maxRayReflections,
        Green = mean_channel Green trace rays maxRayReflections,
        Blue = mean_channel Blue trace rays maxRayReflections\<rparr>"
    by (simp add: renderRays_loop_map)
  have px: "pixel =
       \<lparr>R = uint8_of_float64 unrepresentable
              (min (mean_channel Red trace rays maxRayReflections * 255) 255),
        G = uint8_of_float64 unrepresentable
              (min (mean_channel Green trace rays maxRayReflections * 255) 255),
        B = uint8_of_float64 unrepresentable
              (min (mean_channel Blue trace rays maxRayReflections * 255) 255),
        A = 255\<rparr>"
    using assms(2,3)
    by (simp add: assms(5) renderRays_def Let_def avg Image_Set_def)
  have conv: "unat (uint8_of_float64 unrepresentable (min (m * 255) 255))
      = nat \<lfloor>min (m * 255) 255\<rfloor>" if "0 \<le> m" for m :: real
    using that by (intro uint8_of_float64_floor) simp_all
  from len' px conv show ?thesis
    by simp
qed


theorem renderRays_mean_clamped_witness:
  "Render_rays example_lens () 2 1 1 0 0 =
     [example_lens (- 1) 1 (), example_lens (- 1) 0 (), example_lens 0 1 (), example_lens 0 0 ()] \<and>
   length (Render_rays example_lens () 2 1 1 0 0) = nat (2 * 2) \<and>
   mean_channel Red example_trace (Render_rays example_lens () 2 1 1 0 0) 15 = 1 / 2 \<and>
   mean_channel Green example_trace (Render_rays example_lens () 2 1 1 0 0) 15 = 2 \<and>
   mean_channel Blue example_trace (Render_rays example_lens () 2 1 1 0 0) 15 = 0 \<and>
   Pix (renderRays (\<lambda>x. 0) (\<lambda>x. 0) example_trace example_image
          (Render_rays example_lens () 2 1 1 0 0) 0 0 15) (0, 0)
     = \<lparr>R = 127, G = 255, B = 0, A = 255\<rparr>"
proof -
  let ?rays = "Render_rays example_lens () 2 1 1 0 0"
  let ?pixel = "Pix (renderRays (\<lambda>x. 0) (\<lambda>x. 0) example_trace example_image ?rays 0 0 15) (0, 0)"
  have rays: "?rays =
     [example_lens (- 1) 1 (), example_lens (- 1) 0 (), example_lens 0 1 (), example_lens 0 0 ()]"
    by (simp add: Render_rays_def Let_def upto_rec1)
  have red: "mean_channel Red example_trace ?rays 15 = 1 / 2"
    and green: "mean_channel Green example_trace ?rays 15 = 2"
    and blue: "mean_channel Blue example_trace ?rays 15 = 0"
    by (simp_all add: rays mean_channel_def example_trace_def example_lens_def)
  have n: "(1::int) \<le> 2"
    by simp
  have w: "0 \<le> (0::int) \<and> 0 < Width example_image"
    and h: "0 \<le> (0::int) \<and> 0 < Height example_image"
    by (simp_all add: example_image_def)
  have r: "?rays = Render_rays example_lens () 2 (Width example_image) (Height example_image) 0 0"
    by (simp add: example_image_def)
  note main = renderRays_mean_clamped [OF n w h r refl, of "\<lambda>x. 0" "\<lambda>x. 0" example_trace 15]
  from main have len: "length ?rays = nat (2 * 2)"
    by (rule conjunct1)
  from main have "?pixel =
       \<lparr>R = uint8_of_float64 (\<lambda>x. 0) (min (mean_channel Red example_trace ?rays 15 * 255) 255),
        G = uint8_of_float64 (\<lambda>x. 0) (min (mean_channel Green example_trace ?rays 15 * 255) 255),
        B = uint8_of_float64 (\<lambda>x. 0) (min (mean_channel Blue example_trace ?rays 15 * 255) 255),
        A = 255\<rparr>"
    by blast
  then have pixel: "?pixel = \<lparr>R = 127, G = 255, B = 0, A = 255\<rparr>"
    by (simp add: red green blue uint8_of_float64_def)
  from rays len red green blue pixel show ?thesis
    by (intro conjI)
qed

section \<open>Tracing an initialized scene\<close>

text \<open>
  The two index expressions of \<^verbatim>\<open>TraceRay\<close> do not panic on a scene that
  \<^verbatim>\<open>Initialize\<close> has accepted: the index that \<^verbatim>\<open>FindIntersection\<close> reports with a
  hit is an index of \<^verbatim>\<open>s.Objects\<close>, and the material index of every object has been
  checked.
\<close>

lemma FindIntersection_loop_index:
  assumes "FindIntersection_loop objects r i (currentObject, t) = (currentObject', t')"
  shows "currentObject' = currentObject \<or>
         (i \<le> currentObject' \<and> currentObject' < i + int (length objects))"
  using assms
proof (induction objects arbitrary: i currentObject t)
  case Nil
  then show ?case by simp
next
  case (Cons object objects)
  obtain b u where bu: "Intersect object r t = (b, u)"
    by (cases "Intersect object r t")
  with Cons.prems
  have "FindIntersection_loop objects r (i + 1) (if b then i else currentObject, u)
      = (currentObject', t')"
    by simp
  from Cons.IH [OF this] show ?case
    by (auto split: if_splits)
qed

lemma FindIntersection_index_in_range:
  assumes "FindIntersection s r = (True, t, currentObject)"
  shows "\<exists>object. index (Objects s) currentObject = Inr object \<and> object \<in> set (Objects s)"
proof -
  obtain c u where loop: "FindIntersection_loop (Objects s) r 0 (- 1, 20000) = (c, u)"
    by (cases "FindIntersection_loop (Objects s) r 0 (- 1, 20000)")
  with assms have "c = currentObject" and "c \<noteq> - 1"
    by (simp_all add: FindIntersection_def)
  with FindIntersection_loop_index [OF loop]
  have "0 \<le> currentObject \<and> currentObject < int (length (Objects s))"
    by auto
  then have "nat currentObject < length (Objects s)"
    by linarith
  from nth_mem [OF this] \<open>0 \<le> currentObject \<and> currentObject < int (length (Objects s))\<close>
  show ?thesis
    by (simp add: index_def)
qed

lemma TraceRay_step_no_panic:
  assumes valid: "\<forall>object \<in> set (Objects s).
      0 \<le> MaterialID object \<and> MaterialID object < int (length (Materials s))"
    and deeper: "\<And>r' lightStrength' e'. 0 < remainingDepth \<Longrightarrow>
      TraceRay s r' lightStrength' (remainingDepth - 1) lighting \<noteq> Inl e'"
  shows "TraceRay s r lightStrength remainingDepth lighting \<noteq> Inl e"
proof -
  obtain b t currentObject where res: "FindIntersection s r = (b, t, currentObject)"
    by (cases "FindIntersection s r")
  show ?thesis
  proof (cases b)
    case False
    with res show ?thesis
      by (subst TraceRay.simps) simp
  next
    case True
    with res FindIntersection_index_in_range [of s r t currentObject]
    obtain object where obj: "index (Objects s) currentObject = Inr object"
      and mem: "object \<in> set (Objects s)"
      by auto
    from valid mem
    have mat: "index (Materials s) (MaterialID object) = Inr (Materials s ! nat (MaterialID object))"
      by (simp add: index_def)
    obtain viewer ok where norm: "Normalize (Negative (Direction r)) = (viewer, ok)"
      by (cases "Normalize (Negative (Direction r))")
    show ?thesis
    proof (cases "ok \<and> 0 < remainingDepth")
      case False
      then show ?thesis
        by (subst TraceRay.simps) (auto simp add: res True obj mat norm Let_def)
    next
      case True
      let ?p = "Add (Ray.Position r) (Scale (Direction r) t)"
      let ?n = "SurfaceNormal object ?p"
      let ?r' = "\<lparr>Ray.Position = ?p,
          Direction = fst (Normalize (Subtract (Direction r)
            (Scale ?n (2 * Dot (Direction r) ?n))))\<rparr>"
      let ?m = "Materials s ! nat (MaterialID object)"
      from True deeper [of ?r' "lightStrength * Reflectance ?m"]
      obtain c where rec: "TraceRay s ?r' (lightStrength * Reflectance ?m)
          (remainingDepth - 1) lighting = Inr c"
        by (cases "TraceRay s ?r' (lightStrength * Reflectance ?m)
          (remainingDepth - 1) lighting") auto
      from True \<open>b\<close> show ?thesis
        by (subst TraceRay.simps) (simp add: res obj mat norm Let_def rec)
    qed
  qed
qed

lemma TraceRay_valid_no_panic:
  assumes "\<forall>object \<in> set (Objects s).
      0 \<le> MaterialID object \<and> MaterialID object < int (length (Materials s))"
  shows "TraceRay s r lightStrength remainingDepth lighting \<noteq> Inl e"
proof (induction "nat remainingDepth" arbitrary: remainingDepth r lightStrength e)
  case 0
  then have shallow: "\<not> 0 < remainingDepth"
    by simp
  show ?case
  proof (rule TraceRay_step_no_panic [OF assms])
    fix r' lightStrength' e'
    assume "0 < remainingDepth"
    with shallow show "TraceRay s r' lightStrength' (remainingDepth - 1) lighting \<noteq> Inl e'"
      by simp
  qed
next
  case (Suc n)
  show ?case
  proof (rule TraceRay_step_no_panic [OF assms])
    fix r' lightStrength' e'
    from Suc.hyps(2) have "n = nat (remainingDepth - 1)"
      by simp
    then show "TraceRay s r' lightStrength' (remainingDepth - 1) lighting \<noteq> Inl e'"
      by (rule Suc.hyps(1))
  qed
qed

lemma TraceRay_initialized_no_panic:
  assumes "Initialize nonfinite s0 = (None, s)"
  shows "TraceRay s r lightStrength remainingDepth lighting \<noteq> Inl e"
proof -
  from assms have "Initialize_validate s0 (Objects s0) 0 = None"
    by (auto simp add: Initialize_def Let_def split: option.splits)
  then have v0: "\<forall>object \<in> set (Objects s0).
      \<not> (MaterialID object < 0 \<or> int (length (Materials s0)) \<le> MaterialID object)"
    by (simp add: Initialize_validate_None_iff)
  from assms have "Objects s = Objects s0" and "Materials s = Materials s0"
    by (auto simp add: Initialize_def Let_def split: option.splits)
  with v0 have "\<forall>object \<in> set (Objects s).
      0 \<le> MaterialID object \<and> MaterialID object < int (length (Materials s))"
    by auto
  then show ?thesis
    by (rule TraceRay_valid_no_panic)
qed

end
